theory Spec2Isabelle
  imports Main "HOL-Library.Sublist"
begin

section \<open>ffufai: an AI-assisted wrapper around the ffuf fuzzer\<close>

text \<open>
  The program (\<^verbatim>\<open>ffufai.py\<close>) is sequential glue: it finds the target URL among the
  pass-through arguments, probes the URL's headers, selects an LLM provider from the
  environment, asks it for file extensions, and runs ffuf with \<^verbatim>\<open>-e\<close> appended.
  Everything outside the program (the environment, the network, the libraries
  \<^verbatim>\<open>urllib\<close>, \<^verbatim>\<open>requests\<close>, \<^verbatim>\<open>json\<close>, the provider SDKs and \<^verbatim>\<open>subprocess\<close>) is a
  field of a \<open>world\<close> record: what each call returns or raises. Every effect of the
  program is an entry of a trace of events, in the order the program performs them.
  A Python string is the list of its characters.
\<close>

subsection \<open>Values\<close>

text \<open>
  What \<^verbatim>\<open>json.loads\<close> returns: \<^verbatim>\<open>None\<close>, a bool, an int, a float (kept as its literal: the
  program never computes with one), a str, a list, or a dict (in insertion order).
\<close>

datatype json =
    JNull
  | JBool bool
  | JInt int
  | JFloat string
  | JStr string
  | JArr "json list"
  | JObj "(string \<times> json) list"

text \<open>
  The exceptions the program meets, by class, each with the text of \<^verbatim>\<open>str(e)\<close>.
  \<open>RequestException\<close> stands for \<^verbatim>\<open>requests.RequestException\<close> and its subclasses
  (\<^verbatim>\<open>ConnectionError\<close>, \<^verbatim>\<open>Timeout\<close>, \<^verbatim>\<open>HTTPError\<close>, ...); \<open>OtherError\<close> carries the name of
  any other class, such as the errors of the provider SDKs or \<^verbatim>\<open>FileNotFoundError\<close>.
  A \<open>TypeError\<close> is never formatted by the program, so its text is not kept.
\<close>

datatype exn =
    ValueError string
  | IndexError string
  | RequestException string
  | JSONDecodeError string
  | KeyError string
  | TypeError
  | OtherError string string

fun str_exn :: "exn \<Rightarrow> string" where
  "str_exn (ValueError m) = m"
| "str_exn (IndexError m) = m"
| "str_exn (RequestException m) = m"
| "str_exn (JSONDecodeError m) = m"
| "str_exn (KeyError m) = m"
| "str_exn TypeError = []"
| "str_exn (OtherError c m) = m"

fun is_RequestException :: "exn \<Rightarrow> bool" where
  "is_RequestException (RequestException m) = True"
| "is_RequestException e = False"

text \<open>The classes named by \<^verbatim>\<open>except (json.JSONDecodeError, KeyError)\<close> in \<^verbatim>\<open>main\<close>.\<close>

fun is_parse_error :: "exn \<Rightarrow> bool" where
  "is_parse_error (JSONDecodeError m) = True"
| "is_parse_error (KeyError m) = True"
| "is_parse_error e = False"

type_synonym headers = "(string \<times> string) list"

text \<open>
  The prompt is one fixed f-string template with three holes: the URL, the headers and
  the maximum number of extensions. The model keeps the holes.
\<close>

datatype prompt = Prompt string headers int

text \<open>
  A \<^verbatim>\<open>requests\<close> response as the program uses it: what \<^verbatim>\<open>raise_for_status()\<close> raises (an
  \<^verbatim>\<open>HTTPError\<close>, which is a \<^verbatim>\<open>RequestException\<close>, with its text) if it raises, and \<^verbatim>\<open>.text\<close>.
\<close>

record response =
  http_error :: "string option"
  text_of :: string

record world =
  getenv :: "string \<Rightarrow> string option"
  urlparse_path :: "string \<Rightarrow> exn + string"
  requests_head :: "string \<Rightarrow> exn + headers"
  openai_create :: "string \<Rightarrow> prompt \<Rightarrow> exn + string"
  anthropic_create :: "string \<Rightarrow> prompt \<Rightarrow> exn + string"
  requests_post :: "string \<Rightarrow> prompt \<Rightarrow> exn + response"
  json_loads :: "string \<Rightarrow> exn + json"
  slice_hashable :: bool
  subprocess_run :: "string list \<Rightarrow> exn option"

text \<open>
  \<^item> \<open>getenv\<close>: \<^verbatim>\<open>os.getenv\<close>, \<open>None\<close> for a variable that is not set;
  \<^item> \<open>urlparse_path\<close>: \<^verbatim>\<open>urlparse(url).path\<close>, or the exception \<^verbatim>\<open>urlparse\<close> raises;
  \<^item> \<open>requests_head\<close>: \<^verbatim>\<open>dict(requests.head(url, allow_redirects=True).headers)\<close>;
  \<^item> \<open>openai_create\<close>: the content of the first choice of a \<^verbatim>\<open>gpt-4o\<close> chat completion
    for an API key and a prompt; \<open>anthropic_create\<close>: the text of the first content block
    of a \<^verbatim>\<open>claude-3-5-sonnet-20240620\<close> message;
  \<^item> \<open>requests_post\<close>: the POST to \<^verbatim>\<open>http://localhost:11434/api/generate\<close> for a model
    name and a prompt;
  \<^item> \<open>json_loads\<close>: \<^verbatim>\<open>json.loads\<close> on a str;
  \<^item> \<open>slice_hashable\<close>: whether slice objects are hashable (they are from Python 3.12),
    which decides the exception class when a dict is subscripted with a slice;
  \<^item> \<open>subprocess_run\<close>: the exception \<^verbatim>\<open>subprocess.run\<close> raises, if any.
\<close>

datatype event =
    Print string
  | PrintObj json
  | Head string
  | OpenAICreate string prompt
  | AnthropicCreate string prompt
  | OllamaPost string prompt
  | SubprocessRun "string list"

text \<open>How \<^verbatim>\<open>main\<close> ends: it returns, or an exception leaves it unhandled.\<close>

datatype outcome = Returned | Raised exn

record args =
  ffuf_path :: string
  max_extensions :: int

subsection \<open>Python's string and list operations\<close>

text \<open>\<^verbatim>\<open>xs.index(x)\<close>: the position of the first occurrence.\<close>

fun index_of :: "'a \<Rightarrow> 'a list \<Rightarrow> nat option" where
  "index_of x [] = None"
| "index_of x (y # ys) = (if y = x then Some 0 else map_option Suc (index_of x ys))"

text \<open>\<^verbatim>\<open>s.split(c)\<close> for a one-character separator.\<close>

fun split_on :: "char \<Rightarrow> string \<Rightarrow> string list" where
  "split_on c [] = [[]]"
| "split_on c (x # xs) =
     (if x = c then [] # split_on c xs
      else (case split_on c xs of [] \<Rightarrow> [[x]] | p # ps \<Rightarrow> (x # p) # ps))"

text \<open>\<^verbatim>\<open>sub in s\<close> on strings.\<close>

fun contains :: "string \<Rightarrow> string \<Rightarrow> bool" where
  "contains sub [] = (sub = [])"
| "contains sub (x # xs) = (prefix sub (x # xs) \<or> contains sub xs)"

text \<open>
  \<^verbatim>\<open>s.replace(old, new)\<close>: the non-overlapping occurrences of \<open>old\<close>, from the left. For
  an empty \<open>old\<close> Python puts \<open>new\<close> before every character and at the end.
\<close>

function str_replace :: "string \<Rightarrow> string \<Rightarrow> string \<Rightarrow> string" where
  "str_replace old new s =
     (if s = [] then (if old = [] then new else [])
      else if old = [] then new @ hd s # str_replace old new (tl s)
      else if prefix old s then new @ str_replace old new (drop (length old) s)
      else hd s # str_replace old new (tl s))"
  by pat_completeness auto
termination
  by (relation "measure (\<lambda>(old, new, s). length s)") auto

text \<open>\<^verbatim>\<open>sep.join(xs)\<close> on a list of strings.\<close>

fun join :: "string \<Rightarrow> string list \<Rightarrow> string" where
  "join sep [] = []"
| "join sep [x] = x"
| "join sep (x # y # ys) = x @ sep @ join sep (y # ys)"

text \<open>
  \<^verbatim>\<open>xs[:n]\<close>: a negative stop counts from the end, and the stop is clamped to the
  bounds of the sequence.
\<close>

definition py_slice_to :: "int \<Rightarrow> 'a list \<Rightarrow> 'a list" where
  "py_slice_to n xs = (if n < 0 then take (nat (int (length xs) + n)) xs else take (nat n) xs)"

text \<open>\<^verbatim>\<open>s.strip()\<close>: the whitespace characters at both ends are dropped.\<close>

definition is_space :: "char \<Rightarrow> bool" where
  "is_space c = (of_char c \<in> {9, 10, 11, 12, 13, 28, 29, 30, 31, 32, 133, 160 :: nat})"

definition strip :: "string \<Rightarrow> string" where
  "strip s = rev (dropWhile is_space (rev (dropWhile is_space s)))"

text \<open>\<^verbatim>\<open>str(n)\<close> and \<^verbatim>\<open>repr(s)\<close> for a string without quotes, backslashes or control characters.\<close>

fun digits :: "nat \<Rightarrow> nat \<Rightarrow> string" where
  "digits 0 n = []"
| "digits (Suc fuel) n =
     (if n < 10 then [char_of (48 + n)] else digits fuel (n div 10) @ [char_of (48 + n mod 10)])"

definition str_int :: "int \<Rightarrow> string" where
  "str_int i = (if i < 0 then CHR ''-'' # digits (Suc (nat (- i))) (nat (- i))
                else digits (Suc (nat i)) (nat i))"

definition repr_str :: "string \<Rightarrow> string" where
  "repr_str s = CHR 0x27 # s @ [CHR 0x27]"

text \<open>\<^verbatim>\<open>v[k]\<close> for a string key: only a dict has string keys.\<close>

fun getitem :: "json \<Rightarrow> string \<Rightarrow> exn + json" where
  "getitem (JObj kvs) k =
     (case map_of kvs k of None \<Rightarrow> Inl (KeyError (repr_str k)) | Some v \<Rightarrow> Inr v)"
| "getitem v k = Inl TypeError"

text \<open>\<^verbatim>\<open>v[:n]\<close>: lists and strings are sliced; a dict looks the slice up as a key.\<close>

fun getslice :: "bool \<Rightarrow> json \<Rightarrow> int \<Rightarrow> exn + json" where
  "getslice h (JArr xs) n = Inr (JArr (py_slice_to n xs))"
| "getslice h (JStr s) n = Inr (JStr (py_slice_to n s))"
| "getslice h (JObj kvs) n =
     (if h then Inl (KeyError (''slice(None, '' @ str_int n @ '', None)'')) else Inl TypeError)"
| "getslice h v n = Inl TypeError"

text \<open>
  \<^verbatim>\<open>','.join(v)\<close>: every item of a list must be a str; a str is iterated by character.
\<close>

fun the_strs :: "json list \<Rightarrow> string list option" where
  "the_strs [] = Some []"
| "the_strs (JStr s # vs) = map_option (\<lambda>ss. s # ss) (the_strs vs)"
| "the_strs (v # vs) = None"

fun join_json :: "string \<Rightarrow> json \<Rightarrow> exn + string" where
  "join_json sep (JArr xs) =
     (case the_strs xs of None \<Rightarrow> Inl TypeError | Some ss \<Rightarrow> Inr (join sep ss))"
| "join_json sep (JStr s) = Inr (join sep (map (\<lambda>c. [c]) s))"
| "join_json sep (JObj kvs) = Inr (join sep (map fst kvs))"
| "join_json sep v = Inl TypeError"

subsection \<open>The program\<close>

text \<open>Python's truth value of what \<^verbatim>\<open>os.getenv\<close> returns: \<^verbatim>\<open>None\<close> and \<^verbatim>\<open>''\<close> are false.\<close>

fun truthy :: "string option \<Rightarrow> bool" where
  "truthy None = False"
| "truthy (Some s) = (s \<noteq> [])"

definition config_error :: exn where
  "config_error = ValueError
     ''No API key or Ollama model found. Please set OLLAMA_MODEL, OPENAI_API_KEY, or ANTHROPIC_API_KEY.''"

text \<open>
  \<^verbatim>\<open>get_llm_provider()\<close>: a pair (provider, model or key), or the \<^verbatim>\<open>ValueError\<close> it raises.
\<close>

definition get_llm_provider :: "world \<Rightarrow> exn + (string \<times> string)" where
  "get_llm_provider w =
     (if truthy (getenv w ''OLLAMA_MODEL'')
      then Inr (''ollama'', the (getenv w ''OLLAMA_MODEL''))
      else
        let openai_key = getenv w ''OPENAI_API_KEY'';
            anthropic_key = getenv w ''ANTHROPIC_API_KEY''
        in if truthy anthropic_key then Inr (''anthropic'', the anthropic_key)
           else if truthy openai_key then Inr (''openai'', the openai_key)
           else Inl config_error)"

definition degraded_headers :: headers where
  "degraded_headers = [(''Header'', ''Error fetching headers.'')]"

text \<open>
  \<^verbatim>\<open>get_headers(url)\<close>: the events and the returned mapping, or the exception that is not a
  \<^verbatim>\<open>requests.RequestException\<close> and so passes the handler.
\<close>

definition get_headers :: "world \<Rightarrow> string \<Rightarrow> event list \<times> (exn + headers)" where
  "get_headers w url =
     (case requests_head w url of
        Inr hs \<Rightarrow> ([Head url], Inr hs)
      | Inl e \<Rightarrow>
          if is_RequestException e
          then ([Head url, Print (''Error fetching headers: '' @ str_exn e)], Inr degraded_headers)
          else ([Head url], Inl e))"

text \<open>
  The body of the \<^verbatim>\<open>try\<close> of the ollama branch, after the POST has returned:
  \<^verbatim>\<open>raise_for_status()\<close>, then \<^verbatim>\<open>json.loads(json.loads(response.text)['response'])\<close>.
  \<^verbatim>\<open>json.loads\<close> refuses a value that is not a str with a \<^verbatim>\<open>TypeError\<close>.
\<close>

definition ollama_decode :: "world \<Rightarrow> response \<Rightarrow> exn + json" where
  "ollama_decode w r =
     (case http_error r of
        Some m \<Rightarrow> Inl (RequestException m)
      | None \<Rightarrow>
          (case json_loads w (text_of r) of
             Inl e \<Rightarrow> Inl e
           | Inr envelope \<Rightarrow>
               (case getitem envelope ''response'' of
                  Inl e \<Rightarrow> Inl e
                | Inr (JStr s) \<Rightarrow> json_loads w s
                | Inr v \<Rightarrow> Inl TypeError)))"

text \<open>
  \<^verbatim>\<open>get_ai_extensions(url, headers, provider, model_or_key, max_extensions)\<close>: the events
  and the returned value (\<open>JNull\<close> is Python's \<^verbatim>\<open>None\<close>), or the exception that leaves it.
  Only the ollama branch has a handler, for \<^verbatim>\<open>requests.RequestException\<close>; a provider
  name that is none of the three falls through all branches and returns \<^verbatim>\<open>None\<close>.
\<close>

definition get_ai_extensions ::
  "world \<Rightarrow> string \<Rightarrow> headers \<Rightarrow> string \<Rightarrow> string \<Rightarrow> int \<Rightarrow> event list \<times> (exn + json)" where
  "get_ai_extensions w url hs provider model_or_key max_n =
     (let prompt = Prompt url hs max_n in
      if provider = ''openai'' then
        ([OpenAICreate model_or_key prompt],
         (case openai_create w model_or_key prompt of
            Inl e \<Rightarrow> Inl e
          | Inr content \<Rightarrow> json_loads w (strip content)))
      else if provider = ''anthropic'' then
        ([AnthropicCreate model_or_key prompt],
         (case anthropic_create w model_or_key prompt of
            Inl e \<Rightarrow> Inl e
          | Inr content \<Rightarrow> json_loads w content))
      else if provider = ''ollama'' then
        (case (case requests_post w model_or_key prompt of
                 Inl e \<Rightarrow> Inl e
               | Inr r \<Rightarrow> ollama_decode w r) of
           Inr v \<Rightarrow> ([OllamaPost model_or_key prompt], Inr v)
         | Inl e \<Rightarrow>
             if is_RequestException e
             then ([OllamaPost model_or_key prompt,
                    Print (''Error communicating with Ollama: '' @ str_exn e)], Inr JNull)
             else ([OllamaPost model_or_key prompt], Inl e))
      else ([], Inr JNull))"

text \<open>
  The start of \<^verbatim>\<open>main\<close>: \<^verbatim>\<open>unknown[unknown.index('-u') + 1]\<close>, with the \<^verbatim>\<open>ValueError\<close> of
  \<^verbatim>\<open>index\<close> and the \<^verbatim>\<open>IndexError\<close> of the subscript.
\<close>

definition find_url :: "string list \<Rightarrow> exn + string" where
  "find_url unknown =
     (case index_of ''-u'' unknown of
        None \<Rightarrow> Inl (ValueError (repr_str ''-u'' @ '' is not in list''))
      | Some i \<Rightarrow>
          if Suc i < length unknown then Inr (unknown ! Suc i)
          else Inl (IndexError ''list index out of range''))"

definition arg_error_msg :: string where
  "arg_error_msg = ''Error: -u URL argument is required.''"

definition fuzz_warning :: string where
  "fuzz_warning = ''Warning: FUZZ keyword is not at the end of the URL path. Extension fuzzing may not work as expected.''"

definition parse_error_msg :: "exn \<Rightarrow> string" where
  "parse_error_msg e = ''Error parsing AI response. Try again. Error: '' @ str_exn e"

text \<open>\<^verbatim>\<open>','.join(extensions_data['extensions'][:args.max_extensions])\<close>.\<close>

definition joined_extensions :: "world \<Rightarrow> json \<Rightarrow> int \<Rightarrow> exn + string" where
  "joined_extensions w extensions_data n =
     (case getitem extensions_data ''extensions'' of
        Inl e \<Rightarrow> Inl e
      | Inr v \<Rightarrow>
          (case getslice (slice_hashable w) v n of
             Inl e \<Rightarrow> Inl e
           | Inr sl \<Rightarrow> join_json '','' sl))"

text \<open>
  The last two statements of \<^verbatim>\<open>main\<close>: the command line is built and run; \<^verbatim>\<open>main\<close>
  returns when the child returns, whatever its exit code.
\<close>

definition ffuf_command :: "args \<Rightarrow> string list \<Rightarrow> string \<Rightarrow> string list" where
  "ffuf_command a unknown extensions = [ffuf_path a] @ unknown @ [''-e'', extensions]"

definition invoke :: "world \<Rightarrow> args \<Rightarrow> string list \<Rightarrow> string \<Rightarrow> event list \<times> outcome" where
  "invoke w a unknown extensions =
     ([SubprocessRun (ffuf_command a unknown extensions)],
      (case subprocess_run w (ffuf_command a unknown extensions) of
         None \<Rightarrow> Returned
       | Some e \<Rightarrow> Raised e))"

text \<open>
  The handler of the \<^verbatim>\<open>try\<close> of \<^verbatim>\<open>main\<close>: a \<^verbatim>\<open>JSONDecodeError\<close> or \<^verbatim>\<open>KeyError\<close> is
  reported and \<^verbatim>\<open>main\<close> returns; any other exception leaves \<^verbatim>\<open>main\<close>.
\<close>

definition handle_parse :: "exn \<Rightarrow> event list \<times> outcome" where
  "handle_parse e =
     (if is_parse_error e then ([Print (parse_error_msg e)], Returned) else ([], Raised e))"

text \<open>
  The \<^verbatim>\<open>try\<close> of \<^verbatim>\<open>main\<close> once the provider has returned a value that is not \<^verbatim>\<open>None\<close>:
  the value is printed, the extensions are joined, and after the \<^verbatim>\<open>try\<close> ffuf is run.
\<close>

definition print_and_run ::
  "world \<Rightarrow> args \<Rightarrow> string list \<Rightarrow> json \<Rightarrow> event list \<times> outcome" where
  "print_and_run w a unknown extensions_data =
     (case joined_extensions w extensions_data (max_extensions a) of
        Inl e \<Rightarrow> ([PrintObj extensions_data] @ fst (handle_parse e), snd (handle_parse e))
      | Inr extensions \<Rightarrow>
          ([PrintObj extensions_data] @ fst (invoke w a unknown extensions),
           snd (invoke w a unknown extensions)))"

text \<open>
  \<^verbatim>\<open>main\<close> from the \<^verbatim>\<open>try\<close> on, for the selected provider: the provider is asked, and a
  \<^verbatim>\<open>None\<close> ends the run.
\<close>

definition suggest_and_run ::
  "world \<Rightarrow> args \<Rightarrow> string list \<Rightarrow> string \<Rightarrow> headers \<Rightarrow> string \<Rightarrow> string
     \<Rightarrow> event list \<times> outcome" where
  "suggest_and_run w a unknown url hs provider model_or_key =
     (case get_ai_extensions w url hs provider model_or_key (max_extensions a) of
        (ev, Inl e) \<Rightarrow> (ev @ fst (handle_parse e), snd (handle_parse e))
      | (ev, Inr extensions_data) \<Rightarrow>
          if extensions_data = JNull then (ev, Returned)
          else (ev @ fst (print_and_run w a unknown extensions_data),
                snd (print_and_run w a unknown extensions_data)))"

text \<open>
  \<^verbatim>\<open>main\<close> after the URL has been found: the path is parsed, the warning is printed when
  the last path segment has no \<^verbatim>\<open>FUZZ\<close>, the headers of the URL without \<^verbatim>\<open>FUZZ\<close> are
  probed, and only then the provider is selected.
\<close>

definition warning_events :: "string \<Rightarrow> event list" where
  "warning_events path =
     (if \<not> contains ''FUZZ'' (last (split_on CHR ''/'' path)) then [Print fuzz_warning] else [])"

definition base_url :: "string \<Rightarrow> string" where
  "base_url url = str_replace ''FUZZ'' [] url"

definition probe_and_run ::
  "world \<Rightarrow> args \<Rightarrow> string list \<Rightarrow> string \<Rightarrow> event list \<times> outcome" where
  "probe_and_run w a unknown url =
     (case get_headers w (base_url url) of
        (ev, Inl e) \<Rightarrow> (ev, Raised e)
      | (ev, Inr hs) \<Rightarrow>
          (case get_llm_provider w of
             Inl e \<Rightarrow> (ev, Raised e)
           | Inr (provider, model_or_key) \<Rightarrow>
               (ev @ fst (suggest_and_run w a unknown url hs provider model_or_key),
                snd (suggest_and_run w a unknown url hs provider model_or_key))))"

text \<open>
  \<^verbatim>\<open>main()\<close>, given what \<^verbatim>\<open>parse_known_args\<close> returned: the recognised options and the
  pass-through tokens.
\<close>

definition main :: "world \<Rightarrow> args \<Rightarrow> string list \<Rightarrow> event list \<times> outcome" where
  "main w a unknown =
     (case find_url unknown of
        Inl e \<Rightarrow> ([Print arg_error_msg], Returned)
      | Inr url \<Rightarrow>
          (case urlparse_path w url of
             Inl e \<Rightarrow> ([], Raised e)
           | Inr path \<Rightarrow>
               (warning_events path @ fst (probe_and_run w a unknown url),
                snd (probe_and_run w a unknown url))))"

subsection \<open>Reading a trace\<close>

fun is_probe :: "event \<Rightarrow> bool" where
  "is_probe (Head u) = True"
| "is_probe e = False"

fun is_provider_call :: "event \<Rightarrow> bool" where
  "is_provider_call (OpenAICreate k p) = True"
| "is_provider_call (AnthropicCreate k p) = True"
| "is_provider_call (OllamaPost m p) = True"
| "is_provider_call e = False"

fun is_child :: "event \<Rightarrow> bool" where
  "is_child (SubprocessRun c) = True"
| "is_child e = False"

text \<open>The completion call \<^verbatim>\<open>get_ai_extensions\<close> makes for a provider name.\<close>

definition provider_call :: "string \<Rightarrow> string \<Rightarrow> prompt \<Rightarrow> event" where
  "provider_call provider model_or_key prompt =
     (if provider = ''openai'' then OpenAICreate model_or_key prompt
      else if provider = ''anthropic'' then AnthropicCreate model_or_key prompt
      else OllamaPost model_or_key prompt)"

text \<open>An outbound HTTP request: the header probe or a provider's completion call.\<close>

definition is_http :: "event \<Rightarrow> bool" where
  "is_http e = (is_probe e \<or> is_provider_call e)"

text \<open>
  The probe settles when \<^verbatim>\<open>get_headers\<close> returns: \<^verbatim>\<open>requests.head\<close> returned, or raised
  what the handler catches.
\<close>

definition probe_settles :: "world \<Rightarrow> string \<Rightarrow> bool" where
  "probe_settles w u =
     (case requests_head w u of Inl e \<Rightarrow> is_RequestException e | Inr hs \<Rightarrow> True)"

text \<open>
  The items \<^verbatim>\<open>','.join\<close> iterates over: the elements of a list, the characters of a str.
\<close>

fun entries_of :: "json \<Rightarrow> json list" where
  "entries_of (JArr xs) = xs"
| "entries_of (JStr s) = map (\<lambda>c. JStr [c]) s"
| "entries_of v = []"

fun is_str :: "json \<Rightarrow> bool" where
  "is_str (JStr s) = True"
| "is_str v = False"

fun str_of :: "json \<Rightarrow> string" where
  "str_of (JStr s) = s"
| "str_of v = []"

text \<open>
  The specification's "first \<open>n\<close> entries" of a sequence, to be compared with the slice
  \<open>py_slice_to\<close> of the program: no entry when \<open>n\<close> is not positive.
\<close>

definition spec_first_n :: "int \<Rightarrow> 'a list \<Rightarrow> 'a list" where
  "spec_first_n n xs = take (nat n) xs"

text \<open>How \<^verbatim>\<open>main\<close> ends once it has called \<^verbatim>\<open>subprocess.run\<close> on a command line.\<close>

definition run_outcome :: "world \<Rightarrow> string list \<Rightarrow> outcome" where
  "run_outcome w cmd = (case subprocess_run w cmd of None \<Rightarrow> Returned | Some e \<Rightarrow> Raised e)"

subsection \<open>Concrete runs\<close>

text \<open>
  The run of the specification's example: the target \<^verbatim>\<open>https://example.com/presentations/FUZZ\<close>,
  a key for Anthropic in the environment, a probe that answers, and a provider that
  answers with four extensions. The other runs below change one field of it.
\<close>

definition target_url :: string where
  "target_url = ''https://example.com/presentations/FUZZ''"

definition ppt_text :: string where
  "ppt_text = ''{\"extensions\": [\".pdf\", \".ppt\", \".pptx\", \".doc\"]}''"

definition ppt_list :: "json list" where
  "ppt_list = [JStr ''.pdf'', JStr ''.ppt'', JStr ''.pptx'', JStr ''.doc'']"

definition ppt_json :: json where
  "ppt_json = JObj [(''extensions'', JArr ppt_list)]"

definition array_text :: string where
  "array_text = ''[\".php\", \".html\"]''"

definition array_json :: json where
  "array_json = JArr [JStr ''.php'', JStr ''.html'']"

definition demo_env :: "string \<Rightarrow> string option" where
  "demo_env k = (if k = ''ANTHROPIC_API_KEY'' then Some ''sk-ant-test'' else None)"

definition demo_loads :: "string \<Rightarrow> exn + json" where
  "demo_loads s =
     (if s = ppt_text then Inr ppt_json
      else if s = array_text then Inr array_json
      else Inl (JSONDecodeError ''Expecting value: line 1 column 1 (char 0)''))"

definition demo_path :: "string \<Rightarrow> exn + string" where
  "demo_path u =
     (if u = target_url then Inr ''/presentations/FUZZ''
      else if u = ''https://example.com/FUZZ/admin'' then Inr ''/FUZZ/admin''
      else Inr [])"

definition demo_world :: world where
  "demo_world = \<lparr>
     getenv = demo_env,
     urlparse_path = demo_path,
     requests_head = (\<lambda>u. Inr [(''Content-Type'', ''application/pdf'')]),
     openai_create = (\<lambda>k p. Inr ppt_text),
     anthropic_create = (\<lambda>k p. Inr ppt_text),
     requests_post = (\<lambda>m p. Inl (RequestException ''Connection refused'')),
     json_loads = demo_loads,
     slice_hashable = True,
     subprocess_run = (\<lambda>c. None) \<rparr>"

definition demo_args :: "int \<Rightarrow> args" where
  "demo_args n = \<lparr> ffuf_path = ''ffuf'', max_extensions = n \<rparr>"

definition demo_unknown :: "string list" where
  "demo_unknown = [''-u'', target_url]"

definition demo_prompt :: "int \<Rightarrow> prompt" where
  "demo_prompt n = Prompt target_url [(''Content-Type'', ''application/pdf'')] n"

text \<open>No variable of the environment is set.\<close>

definition bare_world :: world where
  "bare_world = demo_world \<lparr> getenv := (\<lambda>k. None) \<rparr>"

text \<open>\<^verbatim>\<open>OLLAMA_MODEL\<close> is set to the empty string, next to the key for Anthropic.\<close>

definition blank_ollama_env :: "string \<Rightarrow> string option" where
  "blank_ollama_env k = (if k = ''OLLAMA_MODEL'' then Some [] else demo_env k)"

definition blank_ollama_world :: world where
  "blank_ollama_world = demo_world \<lparr> getenv := blank_ollama_env \<rparr>"

text \<open>Each variable alone, and none.\<close>

definition only_env :: "string \<Rightarrow> string \<Rightarrow> string \<Rightarrow> string option" where
  "only_env name v k = (if k = name then Some v else None)"

text \<open>Only the key for OpenAI is set.\<close>

definition openai_world :: world where
  "openai_world = demo_world \<lparr> getenv := only_env ''OPENAI_API_KEY'' ''sk-test'' \<rparr>"

text \<open>\<^verbatim>\<open>OLLAMA_MODEL=llama3\<close> with no ollama server listening.\<close>

definition ollama_down_world :: world where
  "ollama_down_world = demo_world \<lparr> getenv := only_env ''OLLAMA_MODEL'' ''llama3'' \<rparr>"

text \<open>\<^verbatim>\<open>OLLAMA_MODEL=llama3\<close> with a server that answers with status 500.\<close>

definition ollama_500_world :: world where
  "ollama_500_world =
     ollama_down_world \<lparr> requests_post := (\<lambda>m p. Inr \<lparr> http_error =
       Some ''500 Server Error: Internal Server Error for url: http://localhost:11434/api/generate'',
       text_of = [] \<rparr>) \<rparr>"

text \<open>The probe cannot connect.\<close>

definition probe_down_world :: world where
  "probe_down_world =
     demo_world \<lparr> requests_head := (\<lambda>u. Inl (RequestException ''Connection refused'')) \<rparr>"

text \<open>The provider answers with a bare JSON array instead of an object.\<close>

definition array_world :: world where
  "array_world = demo_world \<lparr> anthropic_create := (\<lambda>k p. Inr array_text) \<rparr>"

text \<open>The provider's SDK raises its connection error.\<close>

definition api_error :: exn where
  "api_error = OtherError ''anthropic.APIConnectionError'' ''Connection error.''"

definition outage_world :: world where
  "outage_world = demo_world \<lparr> anthropic_create := (\<lambda>k p. Inl api_error) \<rparr>"

section \<open>Properties\<close>

subsection \<open>Lists, slices and joins\<close>

lemma index_of_None: "index_of x xs = None \<longleftrightarrow> x \<notin> set xs"
  by (induction xs) auto

lemma index_of_first: "x \<notin> set pre \<Longrightarrow> index_of x (pre @ x # rest) = Some (length pre)"
  by (induction pre) auto

lemma the_strs_Some: "the_strs xs = Some ss \<Longrightarrow> xs = map JStr ss"
proof (induction xs arbitrary: ss)
  case Nil
  then show ?case by simp
next
  case (Cons x xs)
  then show ?case by (cases x) auto
qed

lemma the_strs_map: "the_strs (map JStr ss) = Some ss"
  by (induction ss) simp_all

lemma is_str_map: "list_all is_str (map JStr ss)"
  by (induction ss) simp_all

lemma slice_nonneg: "0 \<le> n \<Longrightarrow> py_slice_to n xs = take (nat n) xs"
  by (simp add: py_slice_to_def)

lemma joined_nonneg:
  assumes j: "joined_extensions w d n = Inr ext" and n: "0 \<le> n"
  shows "\<exists>v. getitem d ''extensions'' = Inr v
           \<and> list_all is_str (take (nat n) (entries_of v))
           \<and> ext = join '','' (map str_of (take (nat n) (entries_of v)))"
proof -
  from j obtain v where v: "getitem d ''extensions'' = Inr v"
    by (auto simp add: joined_extensions_def split: sum.splits)
  from j v obtain sl where sl: "getslice (slice_hashable w) v n = Inr sl"
      and e: "join_json '','' sl = Inr ext"
    by (auto simp add: joined_extensions_def split: sum.splits)
  have "list_all is_str (take (nat n) (entries_of v))
        \<and> ext = join '','' (map str_of (take (nat n) (entries_of v)))"
  proof (cases v)
    case (JArr xs)
    with sl n have s: "sl = JArr (take (nat n) xs)" by (auto simp add: slice_nonneg)
    with e obtain ss where ss: "the_strs (take (nat n) xs) = Some ss" "ext = join '','' ss"
      by (auto split: option.splits)
    from the_strs_Some [OF ss(1)] ss(2) JArr show ?thesis
      by (simp add: is_str_map comp_def)
  next
    case (JStr t)
    with sl n have s: "sl = JStr (take (nat n) t)" by (auto simp add: slice_nonneg)
    with e have "ext = join '','' (map (\<lambda>c. [c]) (take (nat n) t))" by simp
    with JStr show ?thesis
      by (simp add: take_map list_all_iff comp_def)
  qed (use sl in \<open>auto split: if_splits\<close>)
  with v show ?thesis by blast
qed

subsection \<open>The events of each step\<close>

lemma get_headers_probe: "filter is_probe (fst (get_headers w u)) = [Head u]"
  by (simp add: get_headers_def split: sum.splits)

lemma get_headers_calls: "filter is_provider_call (fst (get_headers w u)) = []"
  by (simp add: get_headers_def split: sum.splits)

lemma get_headers_child: "filter is_child (fst (get_headers w u)) = []"
  by (simp add: get_headers_def split: sum.splits)

lemma gae_probe: "filter is_probe (fst (get_ai_extensions w url hs p k n)) = []"
  by (simp add: get_ai_extensions_def Let_def split: sum.splits)

lemma glp_names:
  "get_llm_provider w = Inr (p, k) \<Longrightarrow> p \<in> {''openai'', ''anthropic'', ''ollama''}"
  by (auto simp add: get_llm_provider_def Let_def split: if_splits)

lemma handle_parse_probe: "filter is_probe (fst (handle_parse e)) = []"
  by (simp add: handle_parse_def)

lemma handle_parse_calls: "filter is_provider_call (fst (handle_parse e)) = []"
  by (simp add: handle_parse_def)

lemma par_probe: "filter is_probe (fst (print_and_run w a unknown d)) = []"
  by (simp add: print_and_run_def invoke_def handle_parse_def split: sum.splits)

lemma par_calls: "filter is_provider_call (fst (print_and_run w a unknown d)) = []"
  by (simp add: print_and_run_def invoke_def handle_parse_def split: sum.splits)

lemma sar_probe: "filter is_probe (fst (suggest_and_run w a unknown url hs p k)) = []"
  by (simp add: suggest_and_run_def gae_probe handle_parse_probe par_probe
      split: prod.splits sum.splits)
     (metis gae_probe fst_conv)

lemma sar_calls:
  "filter is_provider_call (fst (suggest_and_run w a unknown url hs p k)) =
   filter is_provider_call (fst (get_ai_extensions w url hs p k (max_extensions a)))"
  by (simp add: suggest_and_run_def handle_parse_calls par_calls split: prod.splits sum.splits)

lemma get_headers_quiet:
  "PrintObj d \<notin> set (fst (get_headers w u))" "SubprocessRun c \<notin> set (fst (get_headers w u))"
  by (simp_all add: get_headers_def split: sum.splits)

lemma warning_quiet:
  "PrintObj d \<notin> set (warning_events path)" "SubprocessRun c \<notin> set (warning_events path)"
  by (simp_all add: warning_events_def)

lemma gae_quiet:
  "PrintObj d \<notin> set (fst (get_ai_extensions w url hs p k n))"
  "SubprocessRun c \<notin> set (fst (get_ai_extensions w url hs p k n))"
  by (simp_all add: get_ai_extensions_def Let_def split: sum.splits)

lemma handle_parse_quiet:
  "PrintObj d \<notin> set (fst (handle_parse e))" "SubprocessRun c \<notin> set (fst (handle_parse e))"
  by (simp_all add: handle_parse_def)

lemma par_printed:
  "PrintObj d' \<in> set (fst (print_and_run w a unknown d)) \<Longrightarrow> d' = d"
  by (auto simp add: print_and_run_def invoke_def handle_parse_def split: sum.splits if_splits)

lemma par_child:
  "SubprocessRun c \<in> set (fst (print_and_run w a unknown d)) \<Longrightarrow>
   \<exists>ext. joined_extensions w d (max_extensions a) = Inr ext \<and> c = ffuf_command a unknown ext"
  by (auto simp add: print_and_run_def invoke_def handle_parse_def split: sum.splits if_splits)

lemma sar_printed:
  assumes "PrintObj d \<in> set (fst (suggest_and_run w a unknown url hs p k))"
  shows "suggest_and_run w a unknown url hs p k =
           (fst (get_ai_extensions w url hs p k (max_extensions a))
              @ fst (print_and_run w a unknown d),
            snd (print_and_run w a unknown d))"
proof (cases "get_ai_extensions w url hs p k (max_extensions a)")
  case (Pair ev r)
  have q: "PrintObj d \<notin> set ev"
    using gae_quiet(1) [of d w url hs p k "max_extensions a"] Pair by simp
  show ?thesis
  proof (cases r)
    case (Inl e)
    with assms Pair q handle_parse_quiet(1) [of d e] show ?thesis
      by (simp add: suggest_and_run_def)
  next
    case (Inr v)
    show ?thesis
    proof (cases "v = JNull")
      case True
      with assms Pair Inr q show ?thesis by (simp add: suggest_and_run_def)
    next
      case False
      with assms Pair Inr q have "PrintObj d \<in> set (fst (print_and_run w a unknown v))"
        by (simp add: suggest_and_run_def)
      then have "d = v" by (rule par_printed)
      with Pair Inr False show ?thesis by (simp add: suggest_and_run_def)
    qed
  qed
qed

lemma main_printed:
  assumes "PrintObj d \<in> set (fst (main w a unknown))"
  shows "\<exists>pre. main w a unknown =
           (pre @ fst (print_and_run w a unknown d), snd (print_and_run w a unknown d))
         \<and> (\<forall>c. SubprocessRun c \<notin> set pre) \<and> (\<forall>v. PrintObj v \<notin> set pre)"
proof (cases "find_url unknown")
  case (Inl e)
  with assms show ?thesis by (simp add: main_def)
next
  case url: (Inr url)
  show ?thesis
  proof (cases "urlparse_path w url")
    case (Inl e)
    with assms url show ?thesis by (simp add: main_def)
  next
    case path: (Inr path)
    obtain evh rh where gh: "get_headers w (base_url url) = (evh, rh)"
      by (cases "get_headers w (base_url url)")
    have qh: "\<And>v. PrintObj v \<notin> set evh" "\<And>c. SubprocessRun c \<notin> set evh"
      using get_headers_quiet [of _ w "base_url url"] gh by simp_all
    have m: "main w a unknown =
             (warning_events path @ fst (probe_and_run w a unknown url),
              snd (probe_and_run w a unknown url))"
      using url path by (simp add: main_def)
    show ?thesis
    proof (cases rh)
      case (Inl e)
      with assms m gh qh warning_quiet(1) [of d path] show ?thesis
        by (simp add: probe_and_run_def)
    next
      case hs: (Inr hs)
      show ?thesis
      proof (cases "get_llm_provider w")
        case (Inl e)
        with assms m gh hs qh warning_quiet(1) [of d path] show ?thesis
          by (simp add: probe_and_run_def)
      next
        case (Inr pk)
        obtain p k where pk: "pk = (p, k)" by (cases pk)
        have pr: "probe_and_run w a unknown url =
                  (evh @ fst (suggest_and_run w a unknown url hs p k),
                   snd (suggest_and_run w a unknown url hs p k))"
          using gh hs Inr pk by (simp add: probe_and_run_def)
        with assms m qh warning_quiet(1) [of d path]
        have "PrintObj d \<in> set (fst (suggest_and_run w a unknown url hs p k))"
          by simp
        from sar_printed [OF this] m pr
        have "main w a unknown =
              ((warning_events path @ evh
                  @ fst (get_ai_extensions w url hs p k (max_extensions a)))
                 @ fst (print_and_run w a unknown d),
               snd (print_and_run w a unknown d))"
          by simp
        moreover have "\<forall>c. SubprocessRun c \<notin> set (warning_events path @ evh
                  @ fst (get_ai_extensions w url hs p k (max_extensions a)))"
          using qh warning_quiet gae_quiet by simp
        moreover have "\<forall>v. PrintObj v \<notin> set (warning_events path @ evh
                  @ fst (get_ai_extensions w url hs p k (max_extensions a)))"
          using qh warning_quiet gae_quiet by simp
        ultimately show ?thesis by blast
      qed
    qed
  qed
qed

lemma gae_calls_shape:
  "p \<in> {''openai'', ''anthropic'', ''ollama''} \<Longrightarrow>
   filter is_provider_call (fst (get_ai_extensions w url hs p k n))
     = [provider_call p k (Prompt url hs n)]"
  by (auto simp add: get_ai_extensions_def provider_call_def Let_def split: sum.splits)

lemma warning_probe: "filter is_probe (warning_events path) = []"
  by (simp add: warning_events_def)

lemma warning_calls: "filter is_provider_call (warning_events path) = []"
  by (simp add: warning_events_def)

lemma warning_child: "filter is_child (warning_events path) = []"
  by (simp add: warning_events_def)

lemma warning_http: "filter is_http (warning_events path) = []"
  by (simp add: warning_events_def is_http_def)

lemma get_headers_http: "filter is_http (fst (get_headers w u)) = [Head u]"
  by (simp add: get_headers_def is_http_def split: sum.splits)

lemma get_headers_pair:
  "probe_settles w u \<Longrightarrow> \<exists>hs. get_headers w u = (fst (get_headers w u), Inr hs)"
  by (auto simp add: get_headers_def probe_settles_def split: sum.splits)

lemma get_headers_failed:
  "requests_head w u = Inl (RequestException m) \<Longrightarrow>
   get_headers w u =
     ([Head u, Print (''Error fetching headers: '' @ m)],
      Inr [(''Header'', ''Error fetching headers.'')])"
  by (simp add: get_headers_def degraded_headers_def)

lemma main_found:
  "find_url unknown = Inr url \<Longrightarrow> urlparse_path w url = Inr path \<Longrightarrow>
   main w a unknown =
     (warning_events path @ fst (probe_and_run w a unknown url),
      snd (probe_and_run w a unknown url))"
  by (simp add: main_def)

lemma par_selected:
  "get_headers w (base_url url) = (evh, Inr hs) \<Longrightarrow> get_llm_provider w = Inr (p, k) \<Longrightarrow>
   probe_and_run w a unknown url =
     (evh @ fst (suggest_and_run w a unknown url hs p k),
      snd (suggest_and_run w a unknown url hs p k))"
  by (simp add: probe_and_run_def)

lemma par_unconfigured:
  "get_headers w (base_url url) = (evh, Inr hs) \<Longrightarrow> get_llm_provider w = Inl e \<Longrightarrow>
   probe_and_run w a unknown url = (evh, Raised e)"
  by (simp add: probe_and_run_def)

lemma probe_and_run_probe:
  "filter is_probe (fst (probe_and_run w a unknown url)) = [Head (base_url url)]"
proof (cases "get_headers w (base_url url)")
  case (Pair evh rh)
  have h: "filter is_probe evh = [Head (base_url url)]"
    using get_headers_probe [of w "base_url url"] Pair by simp
  show ?thesis
    using Pair h
    by (simp add: probe_and_run_def sar_probe split: sum.splits prod.splits)
qed

lemma probe_and_run_calls:
  "filter is_provider_call (fst (probe_and_run w a unknown url)) =
     (case snd (get_headers w (base_url url)) of
        Inl e \<Rightarrow> []
      | Inr hs \<Rightarrow>
          (case get_llm_provider w of
             Inl e \<Rightarrow> []
           | Inr (p, k) \<Rightarrow> [provider_call p k (Prompt url hs (max_extensions a))]))"
proof (cases "get_headers w (base_url url)")
  case (Pair evh rh)
  have h: "filter is_provider_call evh = []"
    using get_headers_calls [of w "base_url url"] Pair by simp
  show ?thesis
  proof (cases rh)
    case (Inl e)
    with Pair h show ?thesis by (simp add: probe_and_run_def)
  next
    case hs: (Inr hs)
    show ?thesis
    proof (cases "get_llm_provider w")
      case (Inl e)
      with Pair hs h show ?thesis by (simp add: probe_and_run_def)
    next
      case (Inr pk)
      obtain p k where pk: "pk = (p, k)" by (cases pk)
      from Inr pk have "p \<in> {''openai'', ''anthropic'', ''ollama''}"
        by (auto dest: glp_names)
      from gae_calls_shape [OF this] Pair hs Inr pk h show ?thesis
        by (simp add: probe_and_run_def sar_calls)
    qed
  qed
qed

lemma probe_and_run_child_unconfigured:
  assumes "get_llm_provider w = Inl e"
  shows "filter is_child (fst (probe_and_run w a unknown url)) = []"
proof (cases "get_headers w (base_url url)")
  case (Pair evh rh)
  have "filter is_child evh = []"
    using get_headers_child [of w "base_url url"] Pair by simp
  with Pair assms show ?thesis
    by (simp add: probe_and_run_def split: sum.splits)
qed

lemma main_probe_le: "length (filter is_probe (fst (main w a unknown))) \<le> 1"
  by (simp add: main_def warning_probe probe_and_run_probe split: sum.splits)

lemma main_calls_le: "length (filter is_provider_call (fst (main w a unknown))) \<le> 1"
  by (simp add: main_def warning_calls probe_and_run_calls split: sum.splits prod.splits)

subsection \<open>What the program prints\<close>

lemma get_headers_prints: "Print s \<in> set (fst (get_headers w u)) \<Longrightarrow> hd s = CHR ''E''"
  by (auto simp add: get_headers_def split: sum.splits if_splits)

lemma gae_prints:
  "Print s \<in> set (fst (get_ai_extensions w url hs p k n)) \<Longrightarrow> hd s = CHR ''E''"
  by (auto simp add: get_ai_extensions_def Let_def split: sum.splits if_splits)

lemma handle_parse_prints: "Print s \<in> set (fst (handle_parse e)) \<Longrightarrow> hd s = CHR ''E''"
  by (auto simp add: handle_parse_def parse_error_msg_def split: if_splits)

lemma par_prints: "Print s \<in> set (fst (print_and_run w a unknown d)) \<Longrightarrow> hd s = CHR ''E''"
  by (auto simp add: print_and_run_def invoke_def split: sum.splits dest: handle_parse_prints)

lemma sar_prints:
  "Print s \<in> set (fst (suggest_and_run w a unknown url hs p k)) \<Longrightarrow> hd s = CHR ''E''"
proof (cases "get_ai_extensions w url hs p k (max_extensions a)")
  case (Pair ev r)
  assume s: "Print s \<in> set (fst (suggest_and_run w a unknown url hs p k))"
  have ev: "Print s \<in> set ev \<Longrightarrow> hd s = CHR ''E''"
    using gae_prints [of s w url hs p k "max_extensions a"] Pair by simp
  from s Pair ev show ?thesis
    by (auto simp add: suggest_and_run_def split: sum.splits if_splits
        dest: handle_parse_prints par_prints)
qed

lemma probe_and_run_prints:
  "Print s \<in> set (fst (probe_and_run w a unknown url)) \<Longrightarrow> hd s = CHR ''E''"
proof (cases "get_headers w (base_url url)")
  case (Pair evh rh)
  assume s: "Print s \<in> set (fst (probe_and_run w a unknown url))"
  have ev: "Print s \<in> set evh \<Longrightarrow> hd s = CHR ''E''"
    using get_headers_prints [of s w "base_url url"] Pair by simp
  from s Pair ev show ?thesis
    by (auto simp add: probe_and_run_def split: sum.splits if_splits prod.splits
        dest: sar_prints)
qed

lemma no_warning_later: "Print fuzz_warning \<notin> set (fst (probe_and_run w a unknown url))"
proof
  assume "Print fuzz_warning \<in> set (fst (probe_and_run w a unknown url))"
  then have "hd fuzz_warning = CHR ''E''" by (rule probe_and_run_prints)
  then show False by (simp add: fuzz_warning_def)
qed

lemma parse_msg_not_ollama:
  "parse_error_msg e \<noteq> ''Error communicating with Ollama: '' @ m"
  by (simp add: parse_error_msg_def)

lemma get_headers_no_parse_msg:
  "Print (parse_error_msg e) \<notin> set (fst (get_headers w u))"
  by (simp add: get_headers_def parse_error_msg_def split: sum.splits)

lemma warning_no_parse_msg: "Print (parse_error_msg e) \<notin> set (warning_events path)"
  by (simp add: warning_events_def parse_error_msg_def fuzz_warning_def)

subsection \<open>The target URL\<close>

lemma find_url_missing:
  assumes "''-u'' \<notin> set unknown
           \<or> (unknown \<noteq> [] \<and> last unknown = ''-u'' \<and> ''-u'' \<notin> set (butlast unknown))"
  shows "\<exists>e. find_url unknown = Inl e"
proof -
  from assms consider (absent) "''-u'' \<notin> set unknown"
    | (trailing) "unknown \<noteq> []" "last unknown = ''-u''" "''-u'' \<notin> set (butlast unknown)"
    by blast
  then show ?thesis
  proof cases
    case absent
    then have "index_of ''-u'' unknown = None" by (simp add: index_of_None)
    then show ?thesis by (simp add: find_url_def)
  next
    case trailing
    then have u: "unknown = butlast unknown @ ''-u'' # []"
      by (metis append_butlast_last_id)
    from index_of_first [OF trailing(3), of "[]"] u
    have "index_of ''-u'' unknown = Some (length (butlast unknown))" by simp
    moreover have "Suc (length (butlast unknown)) = length unknown"
      using trailing(1) by simp
    ultimately show ?thesis by (simp add: find_url_def)
  qed
qed

text \<open>
  C4, amended. For every pass-through argument list that contains no \<^verbatim>\<open>-u\<close> token, or whose
  only \<^verbatim>\<open>-u\<close> token is its last token, the run prints the error message and returns: no
  request is made, no child process is invoked, and no exception leaves \<^verbatim>\<open>main\<close>.
\<close>

theorem missing_url_stops_run:
  assumes "''-u'' \<notin> set unknown
           \<or> (unknown \<noteq> [] \<and> last unknown = ''-u'' \<and> ''-u'' \<notin> set (butlast unknown))"
  shows "main w a unknown = ([Print arg_error_msg], Returned)"
proof -
  from find_url_missing [OF assms] obtain e where "find_url unknown = Inl e" by blast
  then show ?thesis by (simp add: main_def)
qed

theorem missing_url_stops_run_witness:
  "''-u'' \<notin> set [''-w'', ''wordlist.txt'']
   \<and> main demo_world (demo_args 4) [''-w'', ''wordlist.txt'']
       = ([Print ''Error: -u URL argument is required.''], Returned)
   \<and> last [''-w'', ''wordlist.txt'', ''-u''] = ''-u''
   \<and> ''-u'' \<notin> set (butlast [''-w'', ''wordlist.txt'', ''-u''])
   \<and> main demo_world (demo_args 4) [''-w'', ''wordlist.txt'', ''-u'']
       = ([Print ''Error: -u URL argument is required.''], Returned)"
proof -
  have a: "''-u'' \<notin> set [''-w'', ''wordlist.txt'']" by simp
  have b: "[''-w'', ''wordlist.txt'', ''-u''] \<noteq> []
           \<and> last [''-w'', ''wordlist.txt'', ''-u''] = ''-u''
           \<and> ''-u'' \<notin> set (butlast [''-w'', ''wordlist.txt'', ''-u''])" by simp
  from a have a': "''-u'' \<notin> set [''-w'', ''wordlist.txt'']
           \<or> ([''-w'', ''wordlist.txt''] \<noteq> [] \<and> last [''-w'', ''wordlist.txt''] = ''-u''
               \<and> ''-u'' \<notin> set (butlast [''-w'', ''wordlist.txt'']))" by blast
  from b have b': "''-u'' \<notin> set [''-w'', ''wordlist.txt'', ''-u'']
           \<or> ([''-w'', ''wordlist.txt'', ''-u''] \<noteq> []
               \<and> last [''-w'', ''wordlist.txt'', ''-u''] = ''-u''
               \<and> ''-u'' \<notin> set (butlast [''-w'', ''wordlist.txt'', ''-u'']))" by blast
  from missing_url_stops_run [OF a', of demo_world "demo_args 4"]
       missing_url_stops_run [OF b', of demo_world "demo_args 4"] a b
  show ?thesis by (simp add: arg_error_msg_def)
qed

text \<open>
  C4 as stated fails when \<^verbatim>\<open>-u\<close> is the last token and also occurs before: \<^verbatim>\<open>index\<close> finds
  the first occurrence, the token after it is taken as the URL, and ffuf is run.
\<close>

theorem trailing_flag_counterexample:
  "last [''-u'', target_url, ''-u''] = ''-u''
   \<and> main demo_world (demo_args 2) [''-u'', target_url, ''-u'']
       = ([Head ''https://example.com/presentations/'',
           AnthropicCreate ''sk-ant-test'' (demo_prompt 2),
           PrintObj ppt_json,
           SubprocessRun [''ffuf'', ''-u'', target_url, ''-u'', ''-e'', ''.pdf,.ppt'']],
          Returned)"
  by code_simp

text \<open>
  C8. For every target URL that \<^verbatim>\<open>urlparse\<close> accepts: the warning is printed exactly when
  the last segment of the path does not contain \<^verbatim>\<open>FUZZ\<close>; with or without it the run goes
  on in the same way, which does not depend on the path: the headers of the URL without
  \<^verbatim>\<open>FUZZ\<close> are probed, once, and when the probe settles and a provider is selected, that
  provider is asked with the URL and the headers.
\<close>

theorem warning_is_not_fatal:
  assumes url: "find_url unknown = Inr url" and path: "urlparse_path w url = Inr path"
  shows "(Print fuzz_warning \<in> set (fst (main w a unknown)))
           = (\<not> contains ''FUZZ'' (last (split_on CHR ''/'' path)))
       \<and> fst (main w a unknown) = warning_events path @ fst (probe_and_run w a unknown url)
       \<and> snd (main w a unknown) = snd (probe_and_run w a unknown url)
       \<and> filter is_probe (fst (main w a unknown)) = [Head (base_url url)]
       \<and> (snd (get_headers w (base_url url)) = Inr hs \<and> get_llm_provider w = Inr (p, k) \<longrightarrow>
            filter is_provider_call (fst (main w a unknown))
              = [provider_call p k (Prompt url hs (max_extensions a))])"
proof -
  note m = main_found [OF url path, of a]
  have A: "(Print fuzz_warning \<in> set (fst (main w a unknown)))
           = (\<not> contains ''FUZZ'' (last (split_on CHR ''/'' path)))"
    using m no_warning_later [of w a unknown url] by (simp add: warning_events_def)
  have B: "filter is_probe (fst (main w a unknown)) = [Head (base_url url)]"
    using m by (simp add: warning_probe probe_and_run_probe)
  have C: "snd (get_headers w (base_url url)) = Inr hs \<and> get_llm_provider w = Inr (p, k) \<longrightarrow>
            filter is_provider_call (fst (main w a unknown))
              = [provider_call p k (Prompt url hs (max_extensions a))]"
    using m by (simp add: warning_calls probe_and_run_calls)
  from A B C m show ?thesis by simp
qed

theorem warning_is_not_fatal_witness:
  "find_url [''-u'', ''https://example.com/FUZZ/admin''] = Inr ''https://example.com/FUZZ/admin''
   \<and> urlparse_path demo_world ''https://example.com/FUZZ/admin'' = Inr ''/FUZZ/admin''
   \<and> \<not> contains ''FUZZ'' (last (split_on CHR ''/'' ''/FUZZ/admin''))
   \<and> Print fuzz_warning
        \<in> set (fst (main demo_world (demo_args 4) [''-u'', ''https://example.com/FUZZ/admin'']))
   \<and> filter is_probe (fst (main demo_world (demo_args 4) [''-u'', ''https://example.com/FUZZ/admin'']))
        = [Head ''https://example.com//admin'']
   \<and> filter is_provider_call
        (fst (main demo_world (demo_args 4) [''-u'', ''https://example.com/FUZZ/admin'']))
        = [AnthropicCreate ''sk-ant-test''
            (Prompt ''https://example.com/FUZZ/admin'' [(''Content-Type'', ''application/pdf'')] 4)]
   \<and> find_url demo_unknown = Inr target_url
   \<and> urlparse_path demo_world target_url = Inr ''/presentations/FUZZ''
   \<and> contains ''FUZZ'' (last (split_on CHR ''/'' ''/presentations/FUZZ''))
   \<and> Print fuzz_warning \<notin> set (fst (main demo_world (demo_args 4) demo_unknown))"
proof -
  have u1: "find_url [''-u'', ''https://example.com/FUZZ/admin''] = Inr ''https://example.com/FUZZ/admin''"
    by code_simp
  have p1: "urlparse_path demo_world ''https://example.com/FUZZ/admin'' = Inr ''/FUZZ/admin''"
    by code_simp
  have c1: "\<not> contains ''FUZZ'' (last (split_on CHR ''/'' ''/FUZZ/admin''))"
    by code_simp
  have u2: "find_url demo_unknown = Inr target_url"
    by code_simp
  have p2: "urlparse_path demo_world target_url = Inr ''/presentations/FUZZ''"
    by code_simp
  have c2: "contains ''FUZZ'' (last (split_on CHR ''/'' ''/presentations/FUZZ''))"
    by code_simp
  have b1: "base_url ''https://example.com/FUZZ/admin'' = ''https://example.com//admin''"
    by code_simp
  have h1: "snd (get_headers demo_world (base_url ''https://example.com/FUZZ/admin''))
              = Inr [(''Content-Type'', ''application/pdf'')]"
    by code_simp
  have g1: "get_llm_provider demo_world = Inr (''anthropic'', ''sk-ant-test'')"
    by code_simp
  have pc: "provider_call ''anthropic'' ''sk-ant-test'' pr = AnthropicCreate ''sk-ant-test'' pr" for pr
    by (simp add: provider_call_def)
  have mx: "max_extensions (demo_args 4) = 4" by (simp add: demo_args_def)
  note t1 = warning_is_not_fatal [OF u1 p1, of "demo_args 4"
      "[(''Content-Type'', ''application/pdf'')]" "''anthropic''" "''sk-ant-test''"]
  note t2 = warning_is_not_fatal [OF u2 p2, of "demo_args 4"]
  from t1 c1 have w1: "Print fuzz_warning
        \<in> set (fst (main demo_world (demo_args 4) [''-u'', ''https://example.com/FUZZ/admin'']))"
    by blast
  from t1 have "filter is_probe
        (fst (main demo_world (demo_args 4) [''-u'', ''https://example.com/FUZZ/admin'']))
        = [Head (base_url ''https://example.com/FUZZ/admin'')]"
    by blast
  with b1 have pr1: "filter is_probe
        (fst (main demo_world (demo_args 4) [''-u'', ''https://example.com/FUZZ/admin'']))
        = [Head ''https://example.com//admin'']"
    by simp
  from t1 h1 g1 have "filter is_provider_call
        (fst (main demo_world (demo_args 4) [''-u'', ''https://example.com/FUZZ/admin'']))
        = [provider_call ''anthropic'' ''sk-ant-test''
            (Prompt ''https://example.com/FUZZ/admin'' [(''Content-Type'', ''application/pdf'')]
              (max_extensions (demo_args 4)))]"
    by blast
  then have ca1: "filter is_provider_call
        (fst (main demo_world (demo_args 4) [''-u'', ''https://example.com/FUZZ/admin'']))
        = [AnthropicCreate ''sk-ant-test''
            (Prompt ''https://example.com/FUZZ/admin'' [(''Content-Type'', ''application/pdf'')] 4)]"
    by (simp add: pc mx)
  from t2 c2 have w2: "Print fuzz_warning \<notin> set (fst (main demo_world (demo_args 4) demo_unknown))"
    by blast
  from u1 p1 c1 w1 pr1 ca1 u2 p2 c2 w2 show ?thesis by blast
qed

subsection \<open>The header probe\<close>

text \<open>
  C5. For every transport failure of the header probe (a \<^verbatim>\<open>requests.RequestException\<close>):
  \<^verbatim>\<open>get_headers\<close> makes the one request, prints the diagnostic and returns exactly
  \<^verbatim>\<open>{"Header": "Error fetching headers."}\<close>; no run probes more than once; and the run
  continues with that mapping: the selected provider is asked with it in the prompt.
\<close>

theorem probe_failure_degrades:
  "(requests_head w u = Inl (RequestException m') \<longrightarrow>
      get_headers w u =
        ([Head u, Print (''Error fetching headers: '' @ m')],
         Inr [(''Header'', ''Error fetching headers.'')]))
   \<and> length (filter is_probe (fst (main w a unknown))) \<le> 1
   \<and> (find_url unknown = Inr url \<and> urlparse_path w url = Inr path
        \<and> requests_head w (base_url url) = Inl (RequestException m) \<longrightarrow>
      filter is_probe (fst (main w a unknown)) = [Head (base_url url)]
      \<and> (get_llm_provider w = Inr (p, k) \<longrightarrow>
           main w a unknown =
             (warning_events path
                @ [Head (base_url url), Print (''Error fetching headers: '' @ m)]
                @ fst (suggest_and_run w a unknown url
                        [(''Header'', ''Error fetching headers.'')] p k),
              snd (suggest_and_run w a unknown url
                    [(''Header'', ''Error fetching headers.'')] p k))
           \<and> filter is_provider_call (fst (main w a unknown))
               = [provider_call p k
                   (Prompt url [(''Header'', ''Error fetching headers.'')] (max_extensions a))]))"
proof -
  have A: "requests_head w u = Inl (RequestException m') \<longrightarrow>
      get_headers w u =
        ([Head u, Print (''Error fetching headers: '' @ m')],
         Inr [(''Header'', ''Error fetching headers.'')])"
    by (simp add: get_headers_failed)
  have B: "length (filter is_probe (fst (main w a unknown))) \<le> 1"
    by (rule main_probe_le)
  have C: "find_url unknown = Inr url \<and> urlparse_path w url = Inr path
        \<and> requests_head w (base_url url) = Inl (RequestException m) \<longrightarrow>
      filter is_probe (fst (main w a unknown)) = [Head (base_url url)]
      \<and> (get_llm_provider w = Inr (p, k) \<longrightarrow>
           main w a unknown =
             (warning_events path
                @ [Head (base_url url), Print (''Error fetching headers: '' @ m)]
                @ fst (suggest_and_run w a unknown url
                        [(''Header'', ''Error fetching headers.'')] p k),
              snd (suggest_and_run w a unknown url
                    [(''Header'', ''Error fetching headers.'')] p k))
           \<and> filter is_provider_call (fst (main w a unknown))
               = [provider_call p k
                   (Prompt url [(''Header'', ''Error fetching headers.'')] (max_extensions a))])"
  proof (intro impI conjI)
    assume h: "find_url unknown = Inr url \<and> urlparse_path w url = Inr path
        \<and> requests_head w (base_url url) = Inl (RequestException m)"
    then have m: "main w a unknown =
        (warning_events path @ fst (probe_and_run w a unknown url),
         snd (probe_and_run w a unknown url))"
      by (simp add: main_found)
    from h have gh: "get_headers w (base_url url) =
        ([Head (base_url url), Print (''Error fetching headers: '' @ m)],
         Inr [(''Header'', ''Error fetching headers.'')])"
      by (simp add: get_headers_failed)
    show "filter is_probe (fst (main w a unknown)) = [Head (base_url url)]"
      using m by (simp add: warning_probe probe_and_run_probe)
    assume g: "get_llm_provider w = Inr (p, k)"
    from par_selected [OF gh g] m
    show "main w a unknown =
             (warning_events path
                @ [Head (base_url url), Print (''Error fetching headers: '' @ m)]
                @ fst (suggest_and_run w a unknown url
                        [(''Header'', ''Error fetching headers.'')] p k),
              snd (suggest_and_run w a unknown url
                    [(''Header'', ''Error fetching headers.'')] p k))"
      by simp
    from m gh g
    show "filter is_provider_call (fst (main w a unknown))
               = [provider_call p k
                   (Prompt url [(''Header'', ''Error fetching headers.'')] (max_extensions a))]"
      by (simp add: warning_calls probe_and_run_calls)
  qed
  from A B C show ?thesis by blast
qed

theorem probe_failure_degrades_witness:
  "requests_head probe_down_world (base_url target_url) = Inl (RequestException ''Connection refused'')
   \<and> find_url demo_unknown = Inr target_url
   \<and> urlparse_path probe_down_world target_url = Inr ''/presentations/FUZZ''
   \<and> get_llm_provider probe_down_world = Inr (''anthropic'', ''sk-ant-test'')
   \<and> get_headers probe_down_world (base_url target_url) =
        ([Head (base_url target_url), Print ''Error fetching headers: Connection refused''],
         Inr [(''Header'', ''Error fetching headers.'')])
   \<and> filter is_probe (fst (main probe_down_world (demo_args 4) demo_unknown))
        = [Head (base_url target_url)]
   \<and> filter is_provider_call (fst (main probe_down_world (demo_args 4) demo_unknown))
        = [AnthropicCreate ''sk-ant-test''
            (Prompt target_url [(''Header'', ''Error fetching headers.'')] 4)]"
proof -
  have f: "requests_head probe_down_world (base_url target_url)
             = Inl (RequestException ''Connection refused'')"
    by (simp add: probe_down_world_def demo_world_def)
  have u: "find_url demo_unknown = Inr target_url" by code_simp
  have p: "urlparse_path probe_down_world target_url = Inr ''/presentations/FUZZ''" by code_simp
  have g: "get_llm_provider probe_down_world = Inr (''anthropic'', ''sk-ant-test'')" by code_simp
  have pc: "provider_call ''anthropic'' ''sk-ant-test'' pr = AnthropicCreate ''sk-ant-test'' pr" for pr
    by (simp add: provider_call_def)
  have mx: "max_extensions (demo_args 4) = 4" by (simp add: demo_args_def)
  note t = probe_failure_degrades [of probe_down_world "base_url target_url"
      "''Connection refused''" "demo_args 4" demo_unknown target_url "''/presentations/FUZZ''"
      "''Connection refused''" "''anthropic''" "''sk-ant-test''"]
  from t f have r1: "get_headers probe_down_world (base_url target_url) =
        ([Head (base_url target_url), Print (''Error fetching headers: '' @ ''Connection refused'')],
         Inr [(''Header'', ''Error fetching headers.'')])"
    by blast
  from t f u p have r2: "filter is_probe (fst (main probe_down_world (demo_args 4) demo_unknown))
        = [Head (base_url target_url)]"
    by blast
  from t f u p g have "filter is_provider_call (fst (main probe_down_world (demo_args 4) demo_unknown))
        = [provider_call ''anthropic'' ''sk-ant-test''
            (Prompt target_url [(''Header'', ''Error fetching headers.'')] (max_extensions (demo_args 4)))]"
    by blast
  then have r3: "filter is_provider_call (fst (main probe_down_world (demo_args 4) demo_unknown))
        = [AnthropicCreate ''sk-ant-test''
            (Prompt target_url [(''Header'', ''Error fetching headers.'')] 4)]"
    by (simp add: pc mx)
  from r1 have r1': "get_headers probe_down_world (base_url target_url) =
        ([Head (base_url target_url), Print ''Error fetching headers: Connection refused''],
         Inr [(''Header'', ''Error fetching headers.'')])"
    by simp
  from f u p g r1' r2 r3 show ?thesis by blast
qed

subsection \<open>The selection of the provider\<close>

lemma unset_config_error:
  assumes "getenv w ''OLLAMA_MODEL'' = None" "getenv w ''ANTHROPIC_API_KEY'' = None"
    "getenv w ''OPENAI_API_KEY'' = None"
  shows "get_llm_provider w = Inl config_error"
  using assms by (simp add: get_llm_provider_def)

text \<open>
  C3, amended. The three variables are checked in a fixed order, and a variable counts
  only when it is set to a non-empty value: \<^verbatim>\<open>OLLAMA_MODEL\<close> selects ollama with that model;
  otherwise \<^verbatim>\<open>ANTHROPIC_API_KEY\<close> selects anthropic with that key; otherwise
  \<^verbatim>\<open>OPENAI_API_KEY\<close> selects openai with that key; otherwise the configuration error is
  raised. A run makes at most one completion call, and only to the selected provider
  with its model or key.
\<close>

theorem provider_precedence:
  "(getenv w ''OLLAMA_MODEL'' = Some m \<and> m \<noteq> [] \<longrightarrow>
      get_llm_provider w = Inr (''ollama'', m))
   \<and> (\<not> truthy (getenv w ''OLLAMA_MODEL'')
        \<and> getenv w ''ANTHROPIC_API_KEY'' = Some kb \<and> kb \<noteq> [] \<longrightarrow>
      get_llm_provider w = Inr (''anthropic'', kb))
   \<and> (\<not> truthy (getenv w ''OLLAMA_MODEL'') \<and> \<not> truthy (getenv w ''ANTHROPIC_API_KEY'')
        \<and> getenv w ''OPENAI_API_KEY'' = Some ka \<and> ka \<noteq> [] \<longrightarrow>
      get_llm_provider w = Inr (''openai'', ka))
   \<and> (\<not> truthy (getenv w ''OLLAMA_MODEL'') \<and> \<not> truthy (getenv w ''ANTHROPIC_API_KEY'')
        \<and> \<not> truthy (getenv w ''OPENAI_API_KEY'') \<longrightarrow>
      get_llm_provider w = Inl config_error)
   \<and> length (filter is_provider_call (fst (main w a unknown))) \<le> 1
   \<and> (get_llm_provider w = Inr (p, k) \<longrightarrow>
        filter is_provider_call (fst (main w a unknown)) = []
        \<or> (\<exists>pr. filter is_provider_call (fst (main w a unknown)) = [provider_call p k pr]))"
proof -
  have A: "getenv w ''OLLAMA_MODEL'' = Some m \<and> m \<noteq> [] \<longrightarrow>
      get_llm_provider w = Inr (''ollama'', m)"
    by (simp add: get_llm_provider_def)
  have B: "\<not> truthy (getenv w ''OLLAMA_MODEL'')
        \<and> getenv w ''ANTHROPIC_API_KEY'' = Some kb \<and> kb \<noteq> [] \<longrightarrow>
      get_llm_provider w = Inr (''anthropic'', kb)"
    by (simp add: get_llm_provider_def)
  have C: "\<not> truthy (getenv w ''OLLAMA_MODEL'') \<and> \<not> truthy (getenv w ''ANTHROPIC_API_KEY'')
        \<and> getenv w ''OPENAI_API_KEY'' = Some ka \<and> ka \<noteq> [] \<longrightarrow>
      get_llm_provider w = Inr (''openai'', ka)"
    by (simp add: get_llm_provider_def)
  have D: "\<not> truthy (getenv w ''OLLAMA_MODEL'') \<and> \<not> truthy (getenv w ''ANTHROPIC_API_KEY'')
        \<and> \<not> truthy (getenv w ''OPENAI_API_KEY'') \<longrightarrow>
      get_llm_provider w = Inl config_error"
    by (simp add: get_llm_provider_def)
  have E: "length (filter is_provider_call (fst (main w a unknown))) \<le> 1"
    by (rule main_calls_le)
  have F: "get_llm_provider w = Inr (p, k) \<longrightarrow>
        filter is_provider_call (fst (main w a unknown)) = []
        \<or> (\<exists>pr. filter is_provider_call (fst (main w a unknown)) = [provider_call p k pr])"
    by (auto simp add: main_def warning_calls probe_and_run_calls split: sum.splits prod.splits)
  from A B C D E F show ?thesis by blast
qed

theorem provider_precedence_witness:
  "getenv ollama_down_world ''OLLAMA_MODEL'' = Some ''llama3''
   \<and> get_llm_provider ollama_down_world = Inr (''ollama'', ''llama3'')
   \<and> \<not> truthy (getenv demo_world ''OLLAMA_MODEL'')
   \<and> getenv demo_world ''ANTHROPIC_API_KEY'' = Some ''sk-ant-test''
   \<and> get_llm_provider demo_world = Inr (''anthropic'', ''sk-ant-test'')
   \<and> \<not> truthy (getenv openai_world ''ANTHROPIC_API_KEY'')
   \<and> getenv openai_world ''OPENAI_API_KEY'' = Some ''sk-test''
   \<and> get_llm_provider openai_world = Inr (''openai'', ''sk-test'')
   \<and> \<not> truthy (getenv bare_world ''OPENAI_API_KEY'')
   \<and> get_llm_provider bare_world = Inl config_error
   \<and> filter is_provider_call (fst (main demo_world (demo_args 4) demo_unknown))
       = [provider_call ''anthropic'' ''sk-ant-test'' (demo_prompt 4)]"
proof -
  have o: "getenv ollama_down_world ''OLLAMA_MODEL'' = Some ''llama3''" "''llama3'' \<noteq> []"
    by (simp_all add: ollama_down_world_def demo_world_def only_env_def)
  have b: "\<not> truthy (getenv demo_world ''OLLAMA_MODEL'')"
    "getenv demo_world ''ANTHROPIC_API_KEY'' = Some ''sk-ant-test''" "''sk-ant-test'' \<noteq> []"
    by (simp_all add: demo_world_def demo_env_def)
  have a: "\<not> truthy (getenv openai_world ''OLLAMA_MODEL'')"
    "\<not> truthy (getenv openai_world ''ANTHROPIC_API_KEY'')"
    "getenv openai_world ''OPENAI_API_KEY'' = Some ''sk-test''" "''sk-test'' \<noteq> []"
    by (simp_all add: openai_world_def demo_world_def only_env_def)
  have n: "\<not> truthy (getenv bare_world ''OLLAMA_MODEL'')"
    "\<not> truthy (getenv bare_world ''ANTHROPIC_API_KEY'')"
    "\<not> truthy (getenv bare_world ''OPENAI_API_KEY'')"
    by (simp_all add: bare_world_def demo_world_def)
  have c: "filter is_provider_call (fst (main demo_world (demo_args 4) demo_unknown))
       = [provider_call ''anthropic'' ''sk-ant-test'' (demo_prompt 4)]"
    by code_simp
  note t1 = provider_precedence [of ollama_down_world "''llama3''"]
  note t2 = provider_precedence [of demo_world _ "''sk-ant-test''"]
  note t3 = provider_precedence [of openai_world _ _ "''sk-test''"]
  note t4 = provider_precedence [of bare_world]
  from t1 o have r1: "get_llm_provider ollama_down_world = Inr (''ollama'', ''llama3'')" by blast
  from t2 b have r2: "get_llm_provider demo_world = Inr (''anthropic'', ''sk-ant-test'')" by blast
  from t3 a have r3: "get_llm_provider openai_world = Inr (''openai'', ''sk-test'')" by blast
  from t4 n have r4: "get_llm_provider bare_world = Inl config_error" by blast
  from o b a n c r1 r2 r3 r4 show ?thesis by blast
qed

text \<open>
  C3 as stated fails for a variable that is present but empty: with \<^verbatim>\<open>OLLAMA_MODEL\<close> set to
  the empty string and a key for Anthropic, anthropic is selected, not ollama.
\<close>

theorem empty_variable_counterexample:
  "getenv blank_ollama_world ''OLLAMA_MODEL'' = Some []
   \<and> get_llm_provider blank_ollama_world = Inr (''anthropic'', ''sk-ant-test'')"
  by code_simp

text \<open>
  C1, amended. For every run in which none of the three variables is set: no provider
  completion call is made and no child process is invoked; and when a URL is found,
  \<^verbatim>\<open>urlparse\<close> accepts it and the probe settles, the run ends with the configuration
  error after the header probe, which is the one outbound HTTP request of the run.
\<close>

theorem config_error_follows_probe:
  assumes env: "getenv w ''OLLAMA_MODEL'' = None" "getenv w ''ANTHROPIC_API_KEY'' = None"
    "getenv w ''OPENAI_API_KEY'' = None"
  shows "filter is_provider_call (fst (main w a unknown)) = []
       \<and> filter is_child (fst (main w a unknown)) = []
       \<and> (find_url unknown = Inr url \<and> urlparse_path w url = Inr path
            \<and> probe_settles w (base_url url) \<longrightarrow>
          main w a unknown
            = (warning_events path @ fst (get_headers w (base_url url)), Raised config_error)
          \<and> filter is_http (fst (main w a unknown)) = [Head (base_url url)])"
proof -
  note cfg = unset_config_error [OF env]
  have A: "filter is_provider_call (fst (main w a unknown)) = []"
    using cfg
    by (simp add: main_def warning_calls probe_and_run_calls split: sum.splits)
  have B: "filter is_child (fst (main w a unknown)) = []"
    using cfg
    by (simp add: main_def warning_child probe_and_run_child_unconfigured split: sum.splits)
  have C: "find_url unknown = Inr url \<and> urlparse_path w url = Inr path
            \<and> probe_settles w (base_url url) \<longrightarrow>
          main w a unknown
            = (warning_events path @ fst (get_headers w (base_url url)), Raised config_error)
          \<and> filter is_http (fst (main w a unknown)) = [Head (base_url url)]"
  proof
    assume h: "find_url unknown = Inr url \<and> urlparse_path w url = Inr path
            \<and> probe_settles w (base_url url)"
    then obtain hs where
      gh: "get_headers w (base_url url) = (fst (get_headers w (base_url url)), Inr hs)"
      using get_headers_pair by blast
    from h have m: "main w a unknown =
        (warning_events path @ fst (probe_and_run w a unknown url),
         snd (probe_and_run w a unknown url))"
      by (simp add: main_found)
    from par_unconfigured [OF gh cfg] m
    have r: "main w a unknown
            = (warning_events path @ fst (get_headers w (base_url url)), Raised config_error)"
      by simp
    then show "main w a unknown
            = (warning_events path @ fst (get_headers w (base_url url)), Raised config_error)
          \<and> filter is_http (fst (main w a unknown)) = [Head (base_url url)]"
      by (simp add: warning_http get_headers_http)
  qed
  from A B C show ?thesis by blast
qed

theorem config_error_follows_probe_witness:
  "getenv bare_world ''OLLAMA_MODEL'' = None
   \<and> getenv bare_world ''ANTHROPIC_API_KEY'' = None
   \<and> getenv bare_world ''OPENAI_API_KEY'' = None
   \<and> find_url demo_unknown = Inr target_url
   \<and> urlparse_path bare_world target_url = Inr ''/presentations/FUZZ''
   \<and> probe_settles bare_world (base_url target_url)
   \<and> snd (main bare_world (demo_args 4) demo_unknown) = Raised config_error
   \<and> filter is_http (fst (main bare_world (demo_args 4) demo_unknown))
       = [Head ''https://example.com/presentations/'']
   \<and> filter is_child (fst (main bare_world (demo_args 4) demo_unknown)) = []"
proof -
  have e: "getenv bare_world ''OLLAMA_MODEL'' = None"
    "getenv bare_world ''ANTHROPIC_API_KEY'' = None"
    "getenv bare_world ''OPENAI_API_KEY'' = None"
    by (simp_all add: bare_world_def demo_world_def)
  have u: "find_url demo_unknown = Inr target_url" by code_simp
  have p: "urlparse_path bare_world target_url = Inr ''/presentations/FUZZ''" by code_simp
  have s: "probe_settles bare_world (base_url target_url)" by code_simp
  have b: "base_url target_url = ''https://example.com/presentations/''" by code_simp
  note t = config_error_follows_probe [OF e, of "demo_args 4" demo_unknown target_url
      "''/presentations/FUZZ''"]
  from t u p s have
    r: "main bare_world (demo_args 4) demo_unknown
          = (warning_events ''/presentations/FUZZ'' @ fst (get_headers bare_world (base_url target_url)),
             Raised config_error)"
    and h: "filter is_http (fst (main bare_world (demo_args 4) demo_unknown))
          = [Head (base_url target_url)]"
    and c: "filter is_child (fst (main bare_world (demo_args 4) demo_unknown)) = []"
    by blast+
  from r have o: "snd (main bare_world (demo_args 4) demo_unknown) = Raised config_error"
    by simp
  from h b have h': "filter is_http (fst (main bare_world (demo_args 4) demo_unknown))
       = [Head ''https://example.com/presentations/'']"
    by simp
  from e u p s o h' c show ?thesis by blast
qed

text \<open>
  C1 as stated fails: \<^verbatim>\<open>main\<close> calls \<^verbatim>\<open>get_headers\<close> before \<^verbatim>\<open>get_llm_provider\<close>, so with no
  variable set the header probe has been attempted when the configuration error is raised.
\<close>

theorem config_error_not_before_probe:
  "getenv bare_world ''OLLAMA_MODEL'' = None
   \<and> getenv bare_world ''ANTHROPIC_API_KEY'' = None
   \<and> getenv bare_world ''OPENAI_API_KEY'' = None
   \<and> main bare_world (demo_args 4) demo_unknown
       = ([Head ''https://example.com/presentations/''], Raised config_error)
   \<and> is_http (Head ''https://example.com/presentations/'')"
  by code_simp

subsection \<open>The provider's answer\<close>

lemma gae_ollama_failed:
  assumes "requests_post w model (Prompt url hs n) = Inl (RequestException m)
           \<or> (\<exists>r. requests_post w model (Prompt url hs n) = Inr r \<and> http_error r = Some m)"
  shows "get_ai_extensions w url hs ''ollama'' model n =
           ([OllamaPost model (Prompt url hs n),
             Print (''Error communicating with Ollama: '' @ m)], Inr JNull)"
  using assms
  by (auto simp add: get_ai_extensions_def ollama_decode_def Let_def)

text \<open>
  C7. For every transport failure of the ollama call (the POST raises a
  \<^verbatim>\<open>requests.RequestException\<close>, or \<^verbatim>\<open>raise_for_status\<close> does): \<^verbatim>\<open>get_ai_extensions\<close> prints
  the diagnostic and returns \<^verbatim>\<open>None\<close>, and \<^verbatim>\<open>main\<close> then returns without invoking the child
  process and without printing the parse-error message.
\<close>

theorem ollama_failure_ends_run:
  assumes post: "requests_post w model (Prompt url hs n) = Inl (RequestException m)
           \<or> (\<exists>r. requests_post w model (Prompt url hs n) = Inr r \<and> http_error r = Some m)"
  shows "get_ai_extensions w url hs ''ollama'' model n =
           ([OllamaPost model (Prompt url hs n),
             Print (''Error communicating with Ollama: '' @ m)], Inr JNull)
       \<and> (find_url unknown = Inr url \<and> urlparse_path w url = Inr path
            \<and> get_headers w (base_url url) = (evh, Inr hs)
            \<and> get_llm_provider w = Inr (''ollama'', model) \<and> max_extensions a = n \<longrightarrow>
          main w a unknown =
            (warning_events path @ evh
               @ [OllamaPost model (Prompt url hs n),
                  Print (''Error communicating with Ollama: '' @ m)], Returned)
          \<and> filter is_child (fst (main w a unknown)) = []
          \<and> (\<forall>e. Print (parse_error_msg e) \<notin> set (fst (main w a unknown))))"
proof -
  note g = gae_ollama_failed [OF post]
  have B: "find_url unknown = Inr url \<and> urlparse_path w url = Inr path
            \<and> get_headers w (base_url url) = (evh, Inr hs)
            \<and> get_llm_provider w = Inr (''ollama'', model) \<and> max_extensions a = n \<longrightarrow>
          main w a unknown =
            (warning_events path @ evh
               @ [OllamaPost model (Prompt url hs n),
                  Print (''Error communicating with Ollama: '' @ m)], Returned)
          \<and> filter is_child (fst (main w a unknown)) = []
          \<and> (\<forall>e. Print (parse_error_msg e) \<notin> set (fst (main w a unknown)))"
  proof
    assume h: "find_url unknown = Inr url \<and> urlparse_path w url = Inr path
            \<and> get_headers w (base_url url) = (evh, Inr hs)
            \<and> get_llm_provider w = Inr (''ollama'', model) \<and> max_extensions a = n"
    then have m0: "main w a unknown =
        (warning_events path @ fst (probe_and_run w a unknown url),
         snd (probe_and_run w a unknown url))"
      by (simp add: main_found)
    from h have gh: "get_headers w (base_url url) = (evh, Inr hs)"
      and gl: "get_llm_provider w = Inr (''ollama'', model)" and mx: "max_extensions a = n"
      by simp_all
    have s: "suggest_and_run w a unknown url hs ''ollama'' model =
        ([OllamaPost model (Prompt url hs n),
          Print (''Error communicating with Ollama: '' @ m)], Returned)"
      using g mx by (simp add: suggest_and_run_def)
    from par_selected [OF gh gl, of a unknown] s m0
    have r: "main w a unknown =
            (warning_events path @ evh
               @ [OllamaPost model (Prompt url hs n),
                  Print (''Error communicating with Ollama: '' @ m)], Returned)"
      by simp
    have c: "filter is_child evh = []"
      using get_headers_child [of w "base_url url"] gh by simp
    have q: "Print (parse_error_msg e) \<notin> set evh" for e
      using get_headers_no_parse_msg [of e w "base_url url"] gh by simp
    have nc: "filter is_child (fst (main w a unknown)) = []"
      using r c by (simp add: warning_child)
    have np: "Print (parse_error_msg e) \<notin> set (fst (main w a unknown))" for e
      using r q [of e] warning_no_parse_msg [of e path] parse_msg_not_ollama [of e m]
      by simp
    from r nc np
    show "main w a unknown =
            (warning_events path @ evh
               @ [OllamaPost model (Prompt url hs n),
                  Print (''Error communicating with Ollama: '' @ m)], Returned)
          \<and> filter is_child (fst (main w a unknown)) = []
          \<and> (\<forall>e. Print (parse_error_msg e) \<notin> set (fst (main w a unknown)))"
      by blast
  qed
  from g B show ?thesis by blast
qed

theorem ollama_failure_ends_run_witness:
  "requests_post ollama_down_world ''llama3'' (demo_prompt 4)
     = Inl (RequestException ''Connection refused'')
   \<and> find_url demo_unknown = Inr target_url
   \<and> urlparse_path ollama_down_world target_url = Inr ''/presentations/FUZZ''
   \<and> get_llm_provider ollama_down_world = Inr (''ollama'', ''llama3'')
   \<and> get_ai_extensions ollama_down_world target_url [(''Content-Type'', ''application/pdf'')]
        ''ollama'' ''llama3'' 4
       = ([OllamaPost ''llama3'' (demo_prompt 4),
           Print ''Error communicating with Ollama: Connection refused''], Inr JNull)
   \<and> main ollama_down_world (demo_args 4) demo_unknown
       = ([Head ''https://example.com/presentations/'',
           OllamaPost ''llama3'' (demo_prompt 4),
           Print ''Error communicating with Ollama: Connection refused''], Returned)
   \<and> requests_post ollama_500_world ''llama3'' (demo_prompt 4)
       = Inr \<lparr> http_error =
           Some ''500 Server Error: Internal Server Error for url: http://localhost:11434/api/generate'',
           text_of = [] \<rparr>
   \<and> main ollama_500_world (demo_args 4) demo_unknown
       = ([Head ''https://example.com/presentations/'',
           OllamaPost ''llama3'' (demo_prompt 4),
           Print ''Error communicating with Ollama: 500 Server Error: Internal Server Error for url: http://localhost:11434/api/generate''],
          Returned)"
proof -
  let ?hs = "[(''Content-Type'', ''application/pdf'')]"
  let ?m5 = "''500 Server Error: Internal Server Error for url: http://localhost:11434/api/generate''"
  have dp: "demo_prompt 4 = Prompt target_url ?hs 4" by (simp add: demo_prompt_def)
  have f1: "requests_post ollama_down_world ''llama3'' (Prompt target_url ?hs 4)
              = Inl (RequestException ''Connection refused'')"
    by (simp add: ollama_down_world_def demo_world_def)
  have f5: "requests_post ollama_500_world ''llama3'' (Prompt target_url ?hs 4)
              = Inr \<lparr> http_error = Some ?m5, text_of = [] \<rparr>"
    by (simp add: ollama_500_world_def ollama_down_world_def demo_world_def)
  have u: "find_url demo_unknown = Inr target_url" by code_simp
  have p1: "urlparse_path ollama_down_world target_url = Inr ''/presentations/FUZZ''" by code_simp
  have p5: "urlparse_path ollama_500_world target_url = Inr ''/presentations/FUZZ''" by code_simp
  have h1: "get_headers ollama_down_world (base_url target_url)
              = ([Head ''https://example.com/presentations/''], Inr ?hs)" by code_simp
  have h5: "get_headers ollama_500_world (base_url target_url)
              = ([Head ''https://example.com/presentations/''], Inr ?hs)" by code_simp
  have g1: "get_llm_provider ollama_down_world = Inr (''ollama'', ''llama3'')" by code_simp
  have g5: "get_llm_provider ollama_500_world = Inr (''ollama'', ''llama3'')" by code_simp
  have mx: "max_extensions (demo_args 4) = 4" by (simp add: demo_args_def)
  have w: "warning_events ''/presentations/FUZZ'' = []" by code_simp
  have a1: "requests_post ollama_down_world ''llama3'' (Prompt target_url ?hs 4)
              = Inl (RequestException ''Connection refused'')
            \<or> (\<exists>r. requests_post ollama_down_world ''llama3'' (Prompt target_url ?hs 4) = Inr r
                  \<and> http_error r = Some ''Connection refused'')"
    using f1 by blast
  have a5: "requests_post ollama_500_world ''llama3'' (Prompt target_url ?hs 4)
              = Inl (RequestException ?m5)
            \<or> (\<exists>r. requests_post ollama_500_world ''llama3'' (Prompt target_url ?hs 4) = Inr r
                  \<and> http_error r = Some ?m5)"
    using f5 by simp
  note t1 = ollama_failure_ends_run [OF a1, of demo_unknown "''/presentations/FUZZ''"
      "[Head ''https://example.com/presentations/'']" "demo_args 4"]
  note t5 = ollama_failure_ends_run [OF a5, of demo_unknown "''/presentations/FUZZ''"
      "[Head ''https://example.com/presentations/'']" "demo_args 4"]
  from t1 have r0: "get_ai_extensions ollama_down_world target_url ?hs ''ollama'' ''llama3'' 4
       = ([OllamaPost ''llama3'' (Prompt target_url ?hs 4),
           Print (''Error communicating with Ollama: '' @ ''Connection refused'')], Inr JNull)"
    by blast
  from t1 u p1 h1 g1 mx have "main ollama_down_world (demo_args 4) demo_unknown
       = (warning_events ''/presentations/FUZZ'' @ [Head ''https://example.com/presentations/'']
            @ [OllamaPost ''llama3'' (Prompt target_url ?hs 4),
               Print (''Error communicating with Ollama: '' @ ''Connection refused'')], Returned)"
    by blast
  with w have r1: "main ollama_down_world (demo_args 4) demo_unknown
       = ([Head ''https://example.com/presentations/'',
           OllamaPost ''llama3'' (demo_prompt 4),
           Print ''Error communicating with Ollama: Connection refused''], Returned)"
    by (simp add: dp)
  from t5 u p5 h5 g5 mx have "main ollama_500_world (demo_args 4) demo_unknown
       = (warning_events ''/presentations/FUZZ'' @ [Head ''https://example.com/presentations/'']
            @ [OllamaPost ''llama3'' (Prompt target_url ?hs 4),
               Print (''Error communicating with Ollama: '' @ ?m5)], Returned)"
    by blast
  with w have r5: "main ollama_500_world (demo_args 4) demo_unknown
       = ([Head ''https://example.com/presentations/'',
           OllamaPost ''llama3'' (demo_prompt 4),
           Print ''Error communicating with Ollama: 500 Server Error: Internal Server Error for url: http://localhost:11434/api/generate''],
          Returned)"
    by (simp add: dp)
  from f1 f5 u p1 g1 r0 r1 r5 show ?thesis
    by (simp add: dp)
qed

text \<open>
  The part of C6 that the program does: a \<^verbatim>\<open>JSONDecodeError\<close> from the provider step, and
  a parsed object without the \<^verbatim>\<open>extensions\<close> key, are reported with the parse-error
  message, and \<^verbatim>\<open>main\<close> returns without invoking the child process.
\<close>

lemma malformed_response_reported:
  assumes url: "find_url unknown = Inr url" and path: "urlparse_path w url = Inr path"
      and gh: "get_headers w (base_url url) = (evh, Inr hs)"
      and gl: "get_llm_provider w = Inr (p, k)"
  shows "get_ai_extensions w url hs p k (max_extensions a) = (eva, Inl (JSONDecodeError m)) \<longrightarrow>
           main w a unknown =
             (warning_events path @ evh @ eva @ [Print (parse_error_msg (JSONDecodeError m))],
              Returned)"
    and "get_ai_extensions w url hs p k (max_extensions a) = (eva, Inr (JObj kvs))
           \<and> map_of kvs ''extensions'' = None \<longrightarrow>
           main w a unknown =
             (warning_events path @ evh @ eva
                @ [PrintObj (JObj kvs), Print (parse_error_msg (KeyError (repr_str ''extensions'')))],
              Returned)"
  using main_found [OF url path, of a] par_selected [OF gh gl, of a unknown]
  by (simp_all add: suggest_and_run_def print_and_run_def joined_extensions_def handle_parse_def)

text \<open>
  C6 at a response that parses and has no \<^verbatim>\<open>extensions\<close> key because it is a JSON array:
  the subscript raises a \<^verbatim>\<open>TypeError\<close>, which the handler for \<^verbatim>\<open>JSONDecodeError\<close> and
  \<^verbatim>\<open>KeyError\<close> lets through. No parse-error message is printed and the exception
  leaves \<^verbatim>\<open>main\<close>.
\<close>

theorem array_response_escapes:
  "get_llm_provider array_world = Inr (''anthropic'', ''sk-ant-test'')
   \<and> anthropic_create array_world ''sk-ant-test'' (demo_prompt 4) = Inr array_text
   \<and> json_loads array_world array_text = Inr array_json
   \<and> main array_world (demo_args 4) demo_unknown
       = ([Head ''https://example.com/presentations/'',
           AnthropicCreate ''sk-ant-test'' (demo_prompt 4),
           PrintObj array_json],
          Raised TypeError)"
  by code_simp

text \<open>
  C9 at a failure inside the completion call of a key-based provider: the anthropic
  branch has no handler, and the handler of \<^verbatim>\<open>main\<close> lets the SDK's error through, so the
  exception leaves \<^verbatim>\<open>main\<close>.
\<close>

theorem provider_failure_escapes:
  "get_llm_provider outage_world = Inr (''anthropic'', ''sk-ant-test'')
   \<and> anthropic_create outage_world ''sk-ant-test'' (demo_prompt 4) = Inl api_error
   \<and> main outage_world (demo_args 4) demo_unknown
       = ([Head ''https://example.com/presentations/'',
           AnthropicCreate ''sk-ant-test'' (demo_prompt 4)],
          Raised api_error)"
  by code_simp

subsection \<open>The command line of the child process\<close>

text \<open>
  C2, amended. For every run that reaches the child-process invocation with a printed
  (parsed) provider response and a maximum count \<open>N \<ge> 0\<close>: the response has the
  \<^verbatim>\<open>extensions\<close> key, and the child command line is the fuzzer executable path, then the
  whole pass-through token list in its order, then \<^verbatim>\<open>-e\<close>, then the comma-join of the first
  \<open>N\<close> entries of the value in the provider's order. The entries are taken as they are:
  nothing is removed, reordered or checked beyond their being strings.
\<close>

theorem child_command_line:
  assumes child: "SubprocessRun cmd \<in> set (fst (main w a unknown))"
      and data: "PrintObj extensions_data \<in> set (fst (main w a unknown))"
      and n: "0 \<le> max_extensions a"
  shows "\<exists>v. getitem extensions_data ''extensions'' = Inr v
           \<and> list_all is_str (spec_first_n (max_extensions a) (entries_of v))
           \<and> cmd = [ffuf_path a] @ unknown
                @ [''-e'', join '','' (map str_of (spec_first_n (max_extensions a) (entries_of v)))]"
proof -
  from main_printed [OF data] obtain pre where
    m: "main w a unknown =
          (pre @ fst (print_and_run w a unknown extensions_data),
           snd (print_and_run w a unknown extensions_data))"
    and q: "\<forall>c. SubprocessRun c \<notin> set pre"
    by blast
  from child m q have "SubprocessRun cmd \<in> set (fst (print_and_run w a unknown extensions_data))"
    by simp
  from par_child [OF this] obtain ext where
    j: "joined_extensions w extensions_data (max_extensions a) = Inr ext"
    and c: "cmd = ffuf_command a unknown ext"
    by blast
  from joined_nonneg [OF j n] c show ?thesis
    by (simp add: spec_first_n_def ffuf_command_def)
qed

text \<open>
  The theorem at the specification's example: for the response
  \<^verbatim>\<open>{"extensions": [".pdf", ".ppt", ".pptx", ".doc"]}\<close> and a maximum of 2 the appended flag
  value is \<^verbatim>\<open>.pdf,.ppt\<close>.
\<close>

theorem child_command_line_witness:
  "SubprocessRun [''ffuf'', ''-u'', target_url, ''-e'', ''.pdf,.ppt'']
      \<in> set (fst (main demo_world (demo_args 2) demo_unknown))
   \<and> PrintObj ppt_json \<in> set (fst (main demo_world (demo_args 2) demo_unknown))
   \<and> 0 \<le> max_extensions (demo_args 2)
   \<and> (\<exists>v. getitem ppt_json ''extensions'' = Inr v
         \<and> list_all is_str (spec_first_n (max_extensions (demo_args 2)) (entries_of v))
         \<and> [''ffuf'', ''-u'', target_url, ''-e'', ''.pdf,.ppt'']
             = [ffuf_path (demo_args 2)] @ demo_unknown
               @ [''-e'', join '','' (map str_of (spec_first_n (max_extensions (demo_args 2)) (entries_of v)))])"
proof -
  have child: "SubprocessRun [''ffuf'', ''-u'', target_url, ''-e'', ''.pdf,.ppt'']
      \<in> set (fst (main demo_world (demo_args 2) demo_unknown))"
    by code_simp
  have data: "PrintObj ppt_json \<in> set (fst (main demo_world (demo_args 2) demo_unknown))"
    by code_simp
  have n: "0 \<le> max_extensions (demo_args 2)"
    by (simp add: demo_args_def)
  from child_command_line [OF child data n] child data n show ?thesis
    by blast
qed

text \<open>
  C2 as stated fails for a negative maximum: with \<^verbatim>\<open>--max-extensions -1\<close> the same run
  appends \<^verbatim>\<open>.pdf,.ppt,.pptx\<close>, which is not the join of the first \<open>-1\<close> entries.
\<close>

theorem negative_maximum_counterexample:
  "SubprocessRun [''ffuf'', ''-u'', target_url, ''-e'', ''.pdf,.ppt,.pptx'']
      \<in> set (fst (main demo_world (demo_args (- 1)) demo_unknown))
   \<and> PrintObj ppt_json \<in> set (fst (main demo_world (demo_args (- 1)) demo_unknown))
   \<and> getitem ppt_json ''extensions'' = Inr (JArr ppt_list)
   \<and> [''ffuf'', ''-u'', target_url, ''-e'', ''.pdf,.ppt,.pptx'']
        \<noteq> [ffuf_path (demo_args (- 1))] @ demo_unknown
            @ [''-e'', join '','' (map str_of
                 (spec_first_n (max_extensions (demo_args (- 1))) (entries_of (JArr ppt_list))))]"
  by code_simp

text \<open>
  C10. For every run whose printed (parsed) provider response has a list under the
  \<^verbatim>\<open>extensions\<close> key: a maximum of 0 or an empty list makes the truncated list empty; when
  the truncated list is empty the run still ends by invoking the child process, with
  \<^verbatim>\<open>-e\<close> followed by the empty string; a negative maximum \<open>n\<close> keeps all but the last
  \<open>|n|\<close> entries; and those entries are what the child process is given.
\<close>

theorem empty_selection_still_runs:
  assumes data: "PrintObj extensions_data \<in> set (fst (main w a unknown))"
      and exts: "getitem extensions_data ''extensions'' = Inr (JArr xs)"
  shows "(max_extensions a = 0 \<or> xs = [] \<longrightarrow> py_slice_to (max_extensions a) xs = [])
       \<and> (py_slice_to (max_extensions a) xs = [] \<longrightarrow>
            last (fst (main w a unknown)) = SubprocessRun ([ffuf_path a] @ unknown @ [''-e'', []])
            \<and> snd (main w a unknown) = run_outcome w ([ffuf_path a] @ unknown @ [''-e'', []]))
       \<and> (max_extensions a < 0 \<longrightarrow>
            py_slice_to (max_extensions a) xs = take (length xs - nat (- max_extensions a)) xs)
       \<and> (xs = map JStr ss \<longrightarrow>
            last (fst (main w a unknown)) =
              SubprocessRun ([ffuf_path a] @ unknown
                @ [''-e'', join '','' (py_slice_to (max_extensions a) ss)]))"
proof -
  from main_printed [OF data] obtain pre where
    m: "main w a unknown =
          (pre @ fst (print_and_run w a unknown extensions_data),
           snd (print_and_run w a unknown extensions_data))"
    by blast
  have A: "max_extensions a = 0 \<or> xs = [] \<longrightarrow> py_slice_to (max_extensions a) xs = []"
    by (auto simp add: py_slice_to_def)
  have B: "py_slice_to (max_extensions a) xs = [] \<longrightarrow>
            last (fst (main w a unknown)) = SubprocessRun ([ffuf_path a] @ unknown @ [''-e'', []])
            \<and> snd (main w a unknown) = run_outcome w ([ffuf_path a] @ unknown @ [''-e'', []])"
  proof
    assume "py_slice_to (max_extensions a) xs = []"
    with exts have "joined_extensions w extensions_data (max_extensions a) = Inr []"
      by (simp add: joined_extensions_def)
    then show "last (fst (main w a unknown)) = SubprocessRun ([ffuf_path a] @ unknown @ [''-e'', []])
            \<and> snd (main w a unknown) = run_outcome w ([ffuf_path a] @ unknown @ [''-e'', []])"
      using m by (simp add: print_and_run_def invoke_def ffuf_command_def run_outcome_def)
  qed
  have C: "max_extensions a < 0 \<longrightarrow>
            py_slice_to (max_extensions a) xs = take (length xs - nat (- max_extensions a)) xs"
  proof
    assume neg: "max_extensions a < 0"
    have "nat (int (length xs) + max_extensions a) = length xs - nat (- max_extensions a)"
      using neg by arith
    with neg show "py_slice_to (max_extensions a) xs
        = take (length xs - nat (- max_extensions a)) xs"
      by (simp add: py_slice_to_def)
  qed
  have D: "xs = map JStr ss \<longrightarrow>
            last (fst (main w a unknown)) =
              SubprocessRun ([ffuf_path a] @ unknown
                @ [''-e'', join '','' (py_slice_to (max_extensions a) ss)])"
  proof
    assume xs: "xs = map JStr ss"
    have "py_slice_to (max_extensions a) (map JStr ss) = map JStr (py_slice_to (max_extensions a) ss)"
      by (simp add: py_slice_to_def take_map)
    with exts xs have "joined_extensions w extensions_data (max_extensions a)
        = Inr (join '','' (py_slice_to (max_extensions a) ss))"
      by (simp add: joined_extensions_def the_strs_map)
    then show "last (fst (main w a unknown)) =
              SubprocessRun ([ffuf_path a] @ unknown
                @ [''-e'', join '','' (py_slice_to (max_extensions a) ss)])"
      using m by (simp add: print_and_run_def invoke_def ffuf_command_def)
  qed
  from A B C D show ?thesis by blast
qed

theorem empty_selection_still_runs_witness:
  "PrintObj ppt_json \<in> set (fst (main demo_world (demo_args 0) demo_unknown))
   \<and> getitem ppt_json ''extensions'' = Inr (JArr ppt_list)
   \<and> py_slice_to (max_extensions (demo_args 0)) ppt_list = []
   \<and> last (fst (main demo_world (demo_args 0) demo_unknown))
        = SubprocessRun [''ffuf'', ''-u'', target_url, ''-e'', []]
   \<and> snd (main demo_world (demo_args 0) demo_unknown) = Returned
   \<and> PrintObj ppt_json \<in> set (fst (main demo_world (demo_args (- 1)) demo_unknown))
   \<and> max_extensions (demo_args (- 1)) < 0
   \<and> last (fst (main demo_world (demo_args (- 1)) demo_unknown))
        = SubprocessRun [''ffuf'', ''-u'', target_url, ''-e'', ''.pdf,.ppt,.pptx'']"
proof -
  have d0: "PrintObj ppt_json \<in> set (fst (main demo_world (demo_args 0) demo_unknown))"
    by code_simp
  have d1: "PrintObj ppt_json \<in> set (fst (main demo_world (demo_args (- 1)) demo_unknown))"
    by code_simp
  have g: "getitem ppt_json ''extensions'' = Inr (JArr ppt_list)"
    by code_simp
  have z: "max_extensions (demo_args 0) = 0" "max_extensions (demo_args (- 1)) < 0"
    by (simp_all add: demo_args_def)
  have l: "ppt_list = map JStr [''.pdf'', ''.ppt'', ''.pptx'', ''.doc'']"
    by (simp add: ppt_list_def)
  have r: "run_outcome demo_world c = Returned" for c
    by (simp add: run_outcome_def demo_world_def)
  have f: "ffuf_path (demo_args n) = ''ffuf''" "max_extensions (demo_args n) = n" for n
    by (simp_all add: demo_args_def)
  have s: "py_slice_to (- 1) [''.pdf'', ''.ppt'', ''.pptx'', ''.doc''] = [''.pdf'', ''.ppt'', ''.pptx'']"
    by (simp add: py_slice_to_def)
  from empty_selection_still_runs [OF d0 g, of "[]"] empty_selection_still_runs [OF d1 g, of "[''.pdf'', ''.ppt'', ''.pptx'', ''.doc'']"]
       d0 d1 g z l r
  show ?thesis
    by (simp add: f s demo_unknown_def)
qed

end
